theory Spec2Isabelle
  imports Complex_Main "HOL-Library.Mapping" "HOL-Library.AList_Mapping" "HOL-Library.Multiset"
begin

section \<open>Python values and errors\<close>

text \<open>
  The script \<^verbatim>\<open>trainGraph.py\<close> is embedded function by function. Exceptions are values
  of \<open>py_error\<close>; a computation that may raise returns \<open>py_error + 'a\<close> with \<open>Inl\<close>
  the exception.
\<close>

datatype py_error = ValueError string | KeyError string | IndexError | IOError string

text \<open>\<^verbatim>\<open>s.split(" ")\<close>: every single blank separates two fields, so that the result
  is never empty and consecutive blanks give empty fields.\<close>

fun split_acc :: "char \<Rightarrow> string \<Rightarrow> string \<Rightarrow> string list" where
  "split_acc sep cur [] = [cur]"
| "split_acc sep cur (c # cs) =
     (if c = sep then cur # split_acc sep [] cs else split_acc sep (cur @ [c]) cs)"

definition py_split :: "string \<Rightarrow> string list" where
  "py_split s = split_acc (CHR '' '') [] s"

text \<open>\<^verbatim>\<open>[v] * n\<close> on a list: no copy at all when \<open>n\<close> is zero or negative.\<close>

definition py_list_mul :: "'a \<Rightarrow> int \<Rightarrow> 'a list" where
  "py_list_mul v n = replicate (nat n) v"

text \<open>\<^verbatim>\<open>d[k]\<close> on a dict: \<open>KeyError\<close> for a missing key, with the key as argument.\<close>

definition dict_get :: "(string, 'v) mapping \<Rightarrow> string \<Rightarrow> py_error + 'v" where
  "dict_get d k = (case Mapping.lookup d k of None \<Rightarrow> Inl (KeyError k) | Some v \<Rightarrow> Inr v)"

text \<open>The list comprehension \<^verbatim>\<open>[vocabulary[word] for word in new_sentence]\<close>: the lookups
  run left to right and the first missing word raises.\<close>

fun lookup_all :: "(string, 'v) mapping \<Rightarrow> string list \<Rightarrow> py_error + 'v list" where
  "lookup_all d [] = Inr []"
| "lookup_all d (w # ws) =
     (case dict_get d w of
        Inl e \<Rightarrow> Inl e
      | Inr v \<Rightarrow> (case lookup_all d ws of Inl e \<Rightarrow> Inl e | Inr vs \<Rightarrow> Inr (v # vs)))"

text \<open>\<^verbatim>\<open>np.hstack\<close> on a list of scalars gives the one-dimensional array of them; on an
  empty list it raises \<open>ValueError\<close>.\<close>

definition np_hstack :: "'v list \<Rightarrow> py_error + 'v list" where
  "np_hstack vs =
     (if vs = [] then Inl (ValueError ''need at least one array to concatenate'')
      else Inr vs)"

text \<open>\<^verbatim>\<open>a.reshape(1, -1)\<close> on a one-dimensional array: a single row.\<close>

definition reshape_1_row :: "'v list \<Rightarrow> 'v list list" where
  "reshape_1_row vs = [vs]"

section \<open>Sentence formatting\<close>

text \<open>
  \<^verbatim>\<open>format_sentence(vocabulary, sequence_length, your_sentence)\<close>, lines 159 to 173.
  \<^verbatim>\<open>data_helpers.clean_str\<close> is not part of the file and is a parameter.
\<close>

definition processed_sentence :: "(string \<Rightarrow> string) \<Rightarrow> string \<Rightarrow> string list" where
  "processed_sentence clean_str your_sentence = py_split (clean_str your_sentence)"

definition num_padding :: "(string \<Rightarrow> string) \<Rightarrow> int \<Rightarrow> string \<Rightarrow> int" where
  "num_padding clean_str sequence_length your_sentence =
     sequence_length - int (length (processed_sentence clean_str your_sentence))"

definition new_sentence :: "(string \<Rightarrow> string) \<Rightarrow> int \<Rightarrow> string \<Rightarrow> string list" where
  "new_sentence clean_str sequence_length your_sentence =
     processed_sentence clean_str your_sentence
       @ py_list_mul ''<PAD/>'' (num_padding clean_str sequence_length your_sentence)"

definition format_sentence ::
  "(string \<Rightarrow> string) \<Rightarrow> (string, int) mapping \<Rightarrow> int \<Rightarrow> string \<Rightarrow> py_error + int list list" where
  "format_sentence clean_str vocabulary sequence_length your_sentence =
     (case lookup_all vocabulary (new_sentence clean_str sequence_length your_sentence) of
        Inl e \<Rightarrow> Inl e
      | Inr vs \<Rightarrow> (case np_hstack vs of Inl e \<Rightarrow> Inl e | Inr v_list \<Rightarrow> Inr (reshape_1_row v_list)))"

section \<open>numpy indexing\<close>

text \<open>\<^verbatim>\<open>a[i]\<close> on the first axis: a negative index counts from the end, an index out of
  range raises \<open>IndexError\<close>.\<close>

definition np_index :: "'a list \<Rightarrow> int \<Rightarrow> py_error + 'a" where
  "np_index xs i =
     (if 0 \<le> i \<and> i < int (length xs) then Inr (xs ! nat i)
      else if - int (length xs) \<le> i \<and> i < 0 then Inr (xs ! nat (i + int (length xs)))
      else Inl IndexError)"

text \<open>\<^verbatim>\<open>a[idx]\<close> with a one-dimensional integer array \<open>idx\<close>: the rows of \<open>a\<close> at those
  indices, in the order of \<open>idx\<close>.\<close>

fun np_take :: "'a list \<Rightarrow> int list \<Rightarrow> py_error + 'a list" where
  "np_take xs [] = Inr []"
| "np_take xs (i # js) =
     (case np_index xs i of
        Inl e \<Rightarrow> Inl e
      | Inr v \<Rightarrow> (case np_take xs js of Inl e \<Rightarrow> Inl e | Inr vs \<Rightarrow> Inr (v # vs)))"

text \<open>\<^verbatim>\<open>a[idx]\<close> with a two-dimensional integer array \<open>idx\<close>: every index is replaced
  by the row of \<open>a\<close> it names.\<close>

fun np_take2 :: "'a list \<Rightarrow> int list list \<Rightarrow> py_error + 'a list list" where
  "np_take2 xs [] = Inr []"
| "np_take2 xs (row # rows) =
     (case np_take xs row of
        Inl e \<Rightarrow> Inl e
      | Inr r \<Rightarrow> (case np_take2 xs rows of Inl e \<Rightarrow> Inl e | Inr rs \<Rightarrow> Inr (r # rs)))"

definition np_arange :: "nat \<Rightarrow> int list" where
  "np_arange n = map int [0..<n]"

text \<open>\<^verbatim>\<open>argmax\<close> of one row: the index of the first largest entry; an empty row raises.\<close>

fun argmax_from :: "int \<Rightarrow> int \<Rightarrow> int \<Rightarrow> int list \<Rightarrow> int" where
  "argmax_from bi bv i [] = bi"
| "argmax_from bi bv i (v # vs) =
     (if bv < v then argmax_from i v (i + 1) vs else argmax_from bi bv (i + 1) vs)"

definition np_argmax :: "int list \<Rightarrow> py_error + int" where
  "np_argmax row =
     (case row of
        [] \<Rightarrow> Inl (ValueError ''attempt to get argmax of an empty sequence'')
      | v # vs \<Rightarrow> Inr (argmax_from 0 v 1 vs))"

text \<open>\<^verbatim>\<open>a.argmax(axis=1)\<close> on a two-dimensional array held as a list of rows.\<close>

fun argmax_axis1 :: "int list list \<Rightarrow> py_error + int list" where
  "argmax_axis1 [] = Inr []"
| "argmax_axis1 (row # rows) =
     (case np_argmax row of
        Inl e \<Rightarrow> Inl e
      | Inr a \<Rightarrow> (case argmax_axis1 rows of Inl e \<Rightarrow> Inl e | Inr as \<Rightarrow> Inr (a # as)))"

section \<open>Configuration\<close>

text \<open>The module-level parameters of lines 63 to 85. The field \<open>w2v_context\<close> is the
  script's \<^verbatim>\<open>context\<close>.\<close>

record config =
  model_variation :: string
  sequence_length :: int
  embedding_dim :: int
  filter_sizes :: "int list"
  num_filters :: int
  dropout_prob :: "real \<times> real"
  hidden_dims :: int
  batch_size :: int
  num_epochs :: int
  val_split :: real
  min_word_count :: int
  w2v_context :: int
  ACTION :: string
  weights_file :: string
  sentence :: string

definition source_config :: config where
  "source_config =
     \<lparr> model_variation = ''CNN-non-static'',
       sequence_length = 56,
       embedding_dim = 20,
       filter_sizes = [3, 4],
       num_filters = 3,
       dropout_prob = (0.25, 0.5),
       hidden_dims = 100,
       batch_size = 32,
       num_epochs = 100,
       val_split = 0.1,
       min_word_count = 1,
       w2v_context = 10,
       ACTION = ''predict'',
       weights_file = ''models/weights_file'',
       sentence = ''exhilarating, funny and fun.'' \<rparr>"

section \<open>The network as the script declares it\<close>

text \<open>The layer constructors of Keras are kept symbolic: a tensor is the expression that
  built it, with the arguments of the call in the order of the source.\<close>

datatype tensor =
    Input "int \<times> int"
  | Convolution1D int int string string int tensor
  | MaxPooling1D int tensor
  | Flatten tensor
  | Merge string "tensor list"

datatype kmodel = Model tensor tensor

datatype optimizer = SGD real real real bool

datatype layer =
    Embedding nat int int "real list list list option"
  | Dropout real "(int \<times> int) option"
  | Graph kmodel
  | Dense int
  | Activation string

record sequential =
  layers :: "layer list"
  compiled :: "(string \<times> optimizer \<times> string list) option"

text \<open>The body of the loop of lines 117 to 125, for one filter width.\<close>

definition conv_branch :: "config \<Rightarrow> tensor \<Rightarrow> int \<Rightarrow> tensor" where
  "conv_branch cfg graph_in fsz =
     (let conv = Convolution1D (num_filters cfg) fsz ''valid'' ''relu'' 1 graph_in;
          pool = MaxPooling1D 2 conv;
          flatten = Flatten pool
      in flatten)"

fun conv_loop :: "config \<Rightarrow> tensor \<Rightarrow> int list \<Rightarrow> tensor list \<Rightarrow> tensor list" where
  "conv_loop cfg graph_in [] convs = convs"
| "conv_loop cfg graph_in (fsz # rest) convs =
     conv_loop cfg graph_in rest (convs @ [conv_branch cfg graph_in fsz])"

text \<open>Lines 115 to 132. \<^verbatim>\<open>convs[0]\<close> raises on an empty tuple of filter sizes.\<close>

definition graph :: "config \<Rightarrow> py_error + kmodel" where
  "graph cfg =
     (let graph_in = Input (sequence_length cfg, embedding_dim cfg);
          convs = conv_loop cfg graph_in (filter_sizes cfg) []
      in if length (filter_sizes cfg) > 1
         then Inr (Model graph_in (Merge ''concat'' convs))
         else (case np_index convs 0 of
                 Inl e \<Rightarrow> Inl e
               | Inr out \<Rightarrow> Inr (Model graph_in out)))"

definition add :: "sequential \<Rightarrow> layer \<Rightarrow> sequential" where
  "add m l = m\<lparr>layers := layers m @ [l]\<rparr>"

text \<open>Lines 135 to 147: the sequential model, its optimizer and \<^verbatim>\<open>compile\<close>.\<close>

definition main_model ::
  "config \<Rightarrow> nat \<Rightarrow> real list list list option \<Rightarrow> kmodel \<Rightarrow> sequential" where
  "main_model cfg len_vocabulary embedding_weights g =
     (let m0 = \<lparr>layers = [], compiled = None\<rparr>;
          m1 = (if \<not> model_variation cfg = ''CNN-static''
                then add m0 (Embedding len_vocabulary (embedding_dim cfg) (sequence_length cfg)
                               embedding_weights)
                else m0);
          m2 = add m1 (Dropout (fst (dropout_prob cfg))
                         (Some (sequence_length cfg, embedding_dim cfg)));
          m3 = add m2 (Graph g);
          m4 = add m3 (Dense (hidden_dims cfg));
          m5 = add m4 (Dropout (snd (dropout_prob cfg)) None);
          m6 = add m5 (Activation ''relu'');
          m7 = add m6 (Dense 1);
          m8 = add m7 (Activation ''sigmoid'');
          opt = SGD 0.01 0.80 0.000001 True
      in m8\<lparr>compiled := Some (''binary_crossentropy'', opt, [''accuracy''])\<rparr>)"

section \<open>The world of the script\<close>

text \<open>
  What the script changes outside its own variables: the state of numpy's global random
  generator, the weights files on disk and, as a trace, the calls and prints it made, in
  order. \<open>'r\<close> is the generator's state and \<open>'w\<close> a set of trained weights.
\<close>

datatype xdata = Indices "int list list" | Vectors "real list list list"

datatype event =
    Print "string list"
  | Print_format_d string nat
  | Call_load_data
  | Call_train_word2vec
  | Call_permutation
  | Call_compile
  | Call_load_weights string
  | Call_fit xdata "int list" int int real
  | Call_save_weights string bool
  | Call_predict "int list list"

record ('r, 'w) world =
  rng :: 'r
  files :: "string \<rightharpoonup> 'w"
  trace :: "event list"

definition emit :: "event \<Rightarrow> ('r, 'w) world \<Rightarrow> ('r, 'w) world" where
  "emit e w = w\<lparr>trace := trace w @ [e]\<rparr>"

definition os_path_exists :: "('r, 'w) world \<Rightarrow> string \<Rightarrow> bool" where
  "os_path_exists w p = (files w p \<noteq> None)"

text \<open>
  The libraries the script calls and that are not in the file: numpy's generator,
  \<^verbatim>\<open>data_helpers\<close>, \<^verbatim>\<open>w2v.train_word2vec\<close> and the training and inference of Keras. Each
  is a parameter, a function of its arguments. A call that may draw random numbers takes
  the generator's state and returns the new one. The vocabulary that \<^verbatim>\<open>load_data\<close>
  returns maps a token to its integer index. \<^verbatim>\<open>model.predict\<close> may raise, since the script
  can hand it a row that is longer than the model's input; on the one-row batch it gives a
  one-by-one array, read here as the number it holds. The other calls are taken to return.
\<close>

record ('r, 'w) externals =
  np_random_seed :: "int \<Rightarrow> 'r"
  np_random_permutation :: "'r \<Rightarrow> int list \<Rightarrow> int list \<times> 'r"
  load_data ::
    "'r \<Rightarrow> (int list list \<times> int list list \<times> (string, int) mapping \<times> string list) \<times> 'r"
  clean_str :: "string \<Rightarrow> string"
  train_word2vec ::
    "'r \<Rightarrow> int list list \<Rightarrow> string list \<Rightarrow> int \<Rightarrow> int \<Rightarrow> int \<Rightarrow> real list list list \<times> 'r"
  fit :: "'r \<Rightarrow> sequential \<Rightarrow> xdata \<Rightarrow> int list \<Rightarrow> int \<Rightarrow> int \<Rightarrow> real \<Rightarrow> 'w \<times> 'r"
  predict :: "sequential \<Rightarrow> 'w \<Rightarrow> int list list \<Rightarrow> py_error + real"

text \<open>\<^verbatim>\<open>model.load_weights(path)\<close> reads the file; \<^verbatim>\<open>model.save_weights(path,
  overwrite=True)\<close> writes it and replaces a file that is there without asking.\<close>

definition load_weights ::
  "string \<Rightarrow> ('r, 'w) world \<Rightarrow> ('r, 'w) world \<times> (py_error + 'w)" where
  "load_weights p w =
     (case files w p of
        None \<Rightarrow> (w, Inl (IOError p))
      | Some ws \<Rightarrow> (emit (Call_load_weights p) w, Inr ws))"

definition save_weights :: "'w \<Rightarrow> string \<Rightarrow> ('r, 'w) world \<Rightarrow> ('r, 'w) world" where
  "save_weights ws p w = emit (Call_save_weights p True) (w\<lparr>files := (files w)(p \<mapsto> ws)\<rparr>)"

section \<open>The script, part by part\<close>

text \<open>Lines 55 to 101: seed, the two prints, the data and the dispatch on the model
  variation. The result is \<open>(x, y, vocabulary, embedding_weights)\<close>.\<close>

definition data_preparation ::
  "('r, 'w) externals \<Rightarrow> config \<Rightarrow> ('r, 'w) world \<Rightarrow>
   ('r, 'w) world \<times>
   (py_error + (xdata \<times> int list list \<times> (string, int) mapping \<times> real list list list option))" where
  "data_preparation E cfg w =
     (let w1 = w\<lparr>rng := np_random_seed E 2\<rparr>;
          w2 = emit (Print [''Model variation is '' @ model_variation cfg]) w1;
          w3 = emit (Print [''Loading data...'']) w2;
          ((x, y, vocabulary, vocabulary_inv), r) = load_data E (rng w3);
          w4 = emit Call_load_data (w3\<lparr>rng := r\<rparr>)
      in if model_variation cfg = ''CNN-non-static'' \<or> model_variation cfg = ''CNN-static''
         then
           (let (embedding_weights, r') =
                  train_word2vec E (rng w4) x vocabulary_inv (embedding_dim cfg)
                    (min_word_count cfg) (w2v_context cfg);
                w5 = emit Call_train_word2vec (w4\<lparr>rng := r'\<rparr>)
            in if model_variation cfg = ''CNN-static''
               then (case np_index embedding_weights 0 of
                       Inl e \<Rightarrow> (w5, Inl e)
                     | Inr W \<Rightarrow>
                         (case np_take2 W x of
                            Inl e \<Rightarrow> (w5, Inl e)
                          | Inr xv \<Rightarrow> (w5, Inr (Vectors xv, y, vocabulary, Some embedding_weights))))
               else (w5, Inr (Indices x, y, vocabulary, Some embedding_weights)))
         else if model_variation cfg = ''CNN-rand''
         then (w4, Inr (Indices x, y, vocabulary, None))
         else (w4, Inl (ValueError ''Unknown model variation'')))"

text \<open>\<^verbatim>\<open>x[shuffle_indices]\<close> on either form of \<open>x\<close>.\<close>

definition take_x :: "xdata \<Rightarrow> int list \<Rightarrow> py_error + xdata" where
  "take_x x idx =
     (case x of
        Indices rows \<Rightarrow> (case np_take rows idx of Inl e \<Rightarrow> Inl e | Inr rs \<Rightarrow> Inr (Indices rs))
      | Vectors rows \<Rightarrow> (case np_take rows idx of Inl e \<Rightarrow> Inl e | Inr rs \<Rightarrow> Inr (Vectors rs)))"

text \<open>The rows of \<open>x\<close> in either form, as one list, to name row \<open>k\<close>.\<close>

definition x_rows :: "xdata \<Rightarrow> (int list + real list list) list" where
  "x_rows x = (case x of Indices rows \<Rightarrow> map Inl rows | Vectors rows \<Rightarrow> map Inr rows)"

text \<open>Lines 104 to 108: one permutation of the row numbers, applied to \<open>x\<close> and to \<open>y\<close>.
  The result is \<open>(shuffle_indices, x_shuffled, y_shuffled)\<close>.\<close>

definition shuffle_data ::
  "('r, 'w) externals \<Rightarrow> xdata \<Rightarrow> int list list \<Rightarrow> (string, int) mapping \<Rightarrow> ('r, 'w) world \<Rightarrow>
   ('r, 'w) world \<times> (py_error + (int list \<times> xdata \<times> int list))" where
  "shuffle_data E x y vocabulary w =
     (let (shuffle_indices, r) = np_random_permutation E (rng w) (np_arange (length y));
          w1 = emit Call_permutation (w\<lparr>rng := r\<rparr>)
      in case take_x x shuffle_indices of
           Inl e \<Rightarrow> (w1, Inl e)
         | Inr x_shuffled \<Rightarrow>
             (case np_take y shuffle_indices of
                Inl e \<Rightarrow> (w1, Inl e)
              | Inr y_rows \<Rightarrow>
                  (case argmax_axis1 y_rows of
                     Inl e \<Rightarrow> (w1, Inl e)
                   | Inr y_shuffled \<Rightarrow>
                       (emit (Print_format_d ''Vocabulary Size: {:d}'' (Mapping.size vocabulary)) w1,
                        Inr (shuffle_indices, x_shuffled, y_shuffled)))))"

text \<open>Lines 115 to 147: the graph of branches, the sequential model and \<^verbatim>\<open>compile\<close>.\<close>

definition building_model ::
  "config \<Rightarrow> (string, int) mapping \<Rightarrow> real list list list option \<Rightarrow> ('r, 'w) world \<Rightarrow>
   ('r, 'w) world \<times> (py_error + sequential)" where
  "building_model cfg vocabulary embedding_weights w =
     (case graph cfg of
        Inl e \<Rightarrow> (w, Inl e)
      | Inr g \<Rightarrow>
          (emit Call_compile w,
           Inr (main_model cfg (Mapping.size vocabulary) embedding_weights g)))"

text \<open>Lines 150 to 156: load the weights or train and save them. The result is the
  weights the model holds afterwards. The argument \<^verbatim>\<open>verbose=2\<close> of \<^verbatim>\<open>fit\<close> only sets what
  Keras prints and is left out.\<close>

definition training ::
  "('r, 'w) externals \<Rightarrow> config \<Rightarrow> sequential \<Rightarrow> xdata \<Rightarrow> int list \<Rightarrow> ('r, 'w) world \<Rightarrow>
   ('r, 'w) world \<times> (py_error + 'w)" where
  "training E cfg model x_shuffled y_shuffled w =
     (if ACTION cfg = ''predict'' \<and> os_path_exists w (weights_file cfg)
      then load_weights (weights_file cfg) w
      else
        (let (ws, r) = fit E (rng w) model x_shuffled y_shuffled (batch_size cfg)
                         (num_epochs cfg) (val_split cfg);
             w1 = emit (Call_fit x_shuffled y_shuffled (batch_size cfg) (num_epochs cfg)
                          (val_split cfg)) (w\<lparr>rng := r\<rparr>);
             w2 = emit (Print [''dumping weights to file...'']) w1
         in (save_weights ws (weights_file cfg) w2, Inr ws)))"

text \<open>Line 180. The comparison of a float with \<open>0.5\<close> is exact, so the probability is a
  real number here.\<close>

definition mood :: "real \<Rightarrow> string" where
  "mood probs = (if probs < 0.5 then ''Negative'' else ''Positive'')"

text \<open>Lines 176 to 181.\<close>

definition predicting ::
  "('r, 'w) externals \<Rightarrow> config \<Rightarrow> (string, int) mapping \<Rightarrow> sequential \<Rightarrow> 'w \<Rightarrow> ('r, 'w) world \<Rightarrow>
   ('r, 'w) world \<times> (py_error + unit)" where
  "predicting E cfg vocabulary model ws w =
     (if ACTION cfg = ''predict''
      then
        (case format_sentence (clean_str E) vocabulary (sequence_length cfg) (sentence cfg) of
           Inl e \<Rightarrow> (w, Inl e)
         | Inr v_list \<Rightarrow>
             (let w1 = emit (Call_predict v_list) w
              in case predict E model ws v_list of
                   Inl e \<Rightarrow> (w1, Inl e)
                 | Inr probs \<Rightarrow>
                     (emit (Print [sentence cfg, CHR 0x0A # ''is'', mood probs, ''sentence'']) w1,
                      Inr ())))
      else (w, Inr ()))"

text \<open>Lines 55 to 147 in the order of the file; an exception ends the run and leaves the
  world as it was when it was raised. The result is what the rest of the script reads:
  \<open>(vocabulary, model, shuffle_indices, x_shuffled, y_shuffled)\<close>.\<close>

definition before_training ::
  "('r, 'w) externals \<Rightarrow> config \<Rightarrow> ('r, 'w) world \<Rightarrow>
   ('r, 'w) world \<times>
   (py_error + ((string, int) mapping \<times> sequential \<times> int list \<times> xdata \<times> int list))" where
  "before_training E cfg w =
     (case data_preparation E cfg w of
        (w1, Inl e) \<Rightarrow> (w1, Inl e)
      | (w1, Inr (x, y, vocabulary, embedding_weights)) \<Rightarrow>
          (case shuffle_data E x y vocabulary w1 of
             (w2, Inl e) \<Rightarrow> (w2, Inl e)
           | (w2, Inr (shuffle_indices, x_shuffled, y_shuffled)) \<Rightarrow>
               (case building_model cfg vocabulary embedding_weights w2 of
                  (w3, Inl e) \<Rightarrow> (w3, Inl e)
                | (w3, Inr model) \<Rightarrow>
                    (w3, Inr (vocabulary, model, shuffle_indices, x_shuffled, y_shuffled)))))"

text \<open>The whole script.\<close>

definition script ::
  "('r, 'w) externals \<Rightarrow> config \<Rightarrow> ('r, 'w) world \<Rightarrow> ('r, 'w) world \<times> (py_error + unit)" where
  "script E cfg w =
     (case before_training E cfg w of
        (w3, Inl e) \<Rightarrow> (w3, Inl e)
      | (w3, Inr (vocabulary, model, shuffle_indices, x_shuffled, y_shuffled)) \<Rightarrow>
          (case training E cfg model x_shuffled y_shuffled w3 of
             (w4, Inl e) \<Rightarrow> (w4, Inl e)
           | (w4, Inr ws) \<Rightarrow> predicting E cfg vocabulary model ws w4))"

text \<open>The events a run adds to the trace it started with.\<close>

definition events_of_run :: "('r, 'w) externals \<Rightarrow> config \<Rightarrow> ('r, 'w) world \<Rightarrow> event list" where
  "events_of_run E cfg w = drop (length (trace w)) (trace (fst (script E cfg w)))"

fun is_fit :: "event \<Rightarrow> bool" where
  "is_fit (Call_fit x y b n v) = True"
| "is_fit e = False"

fun is_save :: "event \<Rightarrow> bool" where
  "is_save (Call_save_weights p b) = True"
| "is_save e = False"

fun is_load :: "event \<Rightarrow> bool" where
  "is_load (Call_load_weights p) = True"
| "is_load e = False"

fun is_predict :: "event \<Rightarrow> bool" where
  "is_predict (Call_predict v) = True"
| "is_predict e = False"

fun is_embedding :: "layer \<Rightarrow> bool" where
  "is_embedding (Embedding n d l ws) = True"
| "is_embedding l = False"

text \<open>An event that neither trains, saves, loads weights nor runs the model.\<close>

definition quiet :: "event \<Rightarrow> bool" where
  "quiet e = (\<not> is_fit e \<and> \<not> is_save e \<and> \<not> is_load e \<and> \<not> is_predict e)"

section \<open>Fixtures\<close>

text \<open>A small corpus, vocabulary and set of library functions, used to run the
  definitions on concrete inputs: three two-word sentences, a generator whose state is a
  counter and whose permutation reverses, and weights that are a number.\<close>

definition toy_vocabulary :: "(string, int) mapping" where
  "toy_vocabulary = Mapping.of_alist [(''<PAD/>'', 0), (''good'', 1), (''movie'', 2), (''bad'', 3)]"

definition toy_clean_str :: "string \<Rightarrow> string" where
  "toy_clean_str s = s"

definition toy_data ::
  "int list list \<times> int list list \<times> (string, int) mapping \<times> string list" where
  "toy_data =
     ([[1, 2], [3, 2], [1, 0]], [[0, 1], [1, 0], [0, 1]], toy_vocabulary,
      [''<PAD/>'', ''good'', ''movie'', ''bad''])"

definition toy_externals :: "(nat, nat) externals" where
  "toy_externals =
     \<lparr> np_random_seed = (\<lambda>s. nat s),
       np_random_permutation = (\<lambda>r xs. (rev xs, Suc r)),
       load_data = (\<lambda>r. (toy_data, r)),
       clean_str = toy_clean_str,
       train_word2vec = (\<lambda>r x vinv d m c. ([[[0, 0], [1, 0], [0, 1], [1, 1]]], r)),
       fit = (\<lambda>r m x y b n v. (r + 40, Suc r)),
       predict = (\<lambda>m ws v. if map length v = [2] then Inr (if ws = 7 then 0.5 else 0.25)
                            else Inl (ValueError ''shape'')) \<rparr>"

definition toy_config :: config where
  "toy_config =
     source_config\<lparr>sequence_length := 2, embedding_dim := 2, sentence := ''good movie''\<rparr>"

definition toy_world :: "(nat, nat) world" where
  "toy_world = \<lparr> rng = 0, files = Map.empty, trace = [] \<rparr>"

definition toy_world_trained :: "(nat, nat) world" where
  "toy_world_trained = \<lparr> rng = 5, files = [''models/weights_file'' \<mapsto> 7], trace = [] \<rparr>"

text \<open>The model and the events that the lines before the training give on the small corpus.\<close>

definition toy_model :: sequential where
  "toy_model =
     \<lparr> layers =
         [Embedding 4 2 2 (Some [[[0, 0], [1, 0], [0, 1], [1, 1]]]),
          Dropout 0.25 (Some (2, 2)),
          Graph (Model (Input (2, 2))
                   (Merge ''concat''
                      [Flatten (MaxPooling1D 2 (Convolution1D 3 3 ''valid'' ''relu'' 1 (Input (2, 2)))),
                       Flatten (MaxPooling1D 2 (Convolution1D 3 4 ''valid'' ''relu'' 1 (Input (2, 2))))])),
          Dense 100, Dropout 0.5 None, Activation ''relu'', Dense 1, Activation ''sigmoid''],
       compiled = Some (''binary_crossentropy'', SGD 0.01 0.80 0.000001 True, [''accuracy'']) \<rparr>"

definition toy_setup_events :: "event list" where
  "toy_setup_events =
     [Print [''Model variation is CNN-non-static''], Print [''Loading data...''],
      Call_load_data, Call_train_word2vec, Call_permutation,
      Print_format_d ''Vocabulary Size: {:d}'' 4, Call_compile]"

text \<open>The other two model variations on the small corpus.\<close>

definition toy_graph :: kmodel where
  "toy_graph =
     Model (Input (2, 2))
       (Merge ''concat''
          [Flatten (MaxPooling1D 2 (Convolution1D 3 3 ''valid'' ''relu'' 1 (Input (2, 2)))),
           Flatten (MaxPooling1D 2 (Convolution1D 3 4 ''valid'' ''relu'' 1 (Input (2, 2))))])"

definition toy_static :: config where
  "toy_static = toy_config\<lparr>model_variation := ''CNN-static''\<rparr>"

definition toy_rand :: config where
  "toy_rand = toy_config\<lparr>model_variation := ''CNN-rand''\<rparr>"

section \<open>Properties of the helpers\<close>

lemma split_acc_nonempty: "split_acc sep cur s \<noteq> []"
  by (induction s arbitrary: cur) auto

lemma processed_sentence_nonempty: "processed_sentence cl s \<noteq> []"
  by (simp add: processed_sentence_def py_split_def split_acc_nonempty)

lemma lookup_all_Inr_iff:
  "(\<exists>vs. lookup_all d ws = Inr vs) \<longleftrightarrow> set ws \<subseteq> Mapping.keys d"
  by (induction ws) (auto simp: dict_get_def keys_is_none_rep split: option.splits sum.splits)

lemma lookup_all_Inr_map:
  "lookup_all d ws = Inr vs \<Longrightarrow> map Some vs = map (Mapping.lookup d) ws"
  by (induction ws arbitrary: vs) (auto simp: dict_get_def split: option.splits sum.splits)

lemma lookup_all_Inl:
  "lookup_all d ws = Inl e \<Longrightarrow> \<exists>w \<in> set ws. Mapping.lookup d w = None \<and> e = KeyError w"
  by (induction ws) (auto simp: dict_get_def split: option.splits sum.splits)

lemma lookup_all_length:
  "lookup_all d ws = Inr vs \<Longrightarrow> length vs = length ws"
  by (induction ws arbitrary: vs) (auto simp: dict_get_def split: option.splits sum.splits)

lemma np_take_nth:
  "np_take xs idx = Inr vs \<Longrightarrow>
     length vs = length idx \<and> (\<forall>k < length idx. np_index xs (idx ! k) = Inr (vs ! k))"
proof (induction idx arbitrary: vs)
  case Nil
  then show ?case by simp
next
  case (Cons i js)
  from Cons.prems obtain v vs' where
    v: "np_index xs i = Inr v" and vs': "np_take xs js = Inr vs'" and eq: "vs = v # vs'"
    by (auto split: sum.splits)
  from Cons.IH[OF vs'] v eq show ?case
    by (auto simp: nth_Cons split: nat.splits)
qed

lemma np_take2_nth:
  "np_take2 W x = Inr xv \<Longrightarrow>
     length xv = length x
     \<and> (\<forall>i < length x. length (xv ! i) = length (x ! i)
           \<and> (\<forall>j < length (x ! i). np_index W (x ! i ! j) = Inr (xv ! i ! j)))"
proof (induction x arbitrary: xv)
  case Nil
  then show ?case by simp
next
  case (Cons row rows)
  from Cons.prems obtain r rs where
    r: "np_take W row = Inr r" and rs: "np_take2 W rows = Inr rs" and eq: "xv = r # rs"
    by (auto split: sum.splits)
  from Cons.IH[OF rs] np_take_nth[OF r] eq show ?case
    by (auto simp: nth_Cons split: nat.splits)
qed

lemma np_index_map:
  "np_index (map f xs) i = (case np_index xs i of Inl e \<Rightarrow> Inl e | Inr v \<Rightarrow> Inr (f v))"
proof -
  have "nat (i + int (length xs)) < length xs" if "- int (length xs) \<le> i" "i < 0"
    using that by linarith
  moreover have "nat i < length xs" if "0 \<le> i" "i < int (length xs)"
    using that by linarith
  ultimately show ?thesis by (simp add: np_index_def)
qed

lemma np_take_map:
  "np_take (map f xs) idx = (case np_take xs idx of Inl e \<Rightarrow> Inl e | Inr vs \<Rightarrow> Inr (map f vs))"
  by (induction idx) (auto simp: np_index_map split: sum.splits)

lemma np_index_in_range:
  "0 \<le> i \<Longrightarrow> i < int (length xs) \<Longrightarrow> np_index xs i = Inr (xs ! nat i)"
  by (simp add: np_index_def)

lemma argmax_axis1_nth:
  "argmax_axis1 rows = Inr ys \<Longrightarrow>
     length ys = length rows \<and> (\<forall>k < length rows. np_argmax (rows ! k) = Inr (ys ! k))"
proof (induction rows arbitrary: ys)
  case Nil
  then show ?case by simp
next
  case (Cons row rows)
  from Cons.prems obtain a as where
    a: "np_argmax row = Inr a" and as: "argmax_axis1 rows = Inr as" and eq: "ys = a # as"
    by (auto split: sum.splits)
  from Cons.IH[OF as] a eq show ?case
    by (auto simp: nth_Cons split: nat.splits)
qed

lemma argmax_axis1_all:
  "(\<forall>row \<in> set rows. \<exists>a. np_argmax row = Inr a) \<Longrightarrow> \<exists>ys. argmax_axis1 rows = Inr ys"
  by (induction rows) auto

text \<open>The sentence is never empty after the split, so \<^verbatim>\<open>np.hstack\<close> never sees an empty
  list: the only exception \<open>format_sentence\<close> raises is that of the lookup.\<close>

lemma format_sentence_cases:
  "format_sentence cl voc n s =
     (case lookup_all voc (new_sentence cl n s) of Inl e \<Rightarrow> Inl e | Inr vs \<Rightarrow> Inr [vs])"
proof -
  have ne: "new_sentence cl n s \<noteq> []"
    by (simp add: new_sentence_def processed_sentence_nonempty)
  show ?thesis
  proof (cases "lookup_all voc (new_sentence cl n s)")
    case (Inl e)
    then show ?thesis by (simp add: format_sentence_def)
  next
    case (Inr vs)
    with ne have "vs \<noteq> []" using lookup_all_length by fastforce
    with Inr show ?thesis by (simp add: format_sentence_def np_hstack_def reshape_1_row_def)
  qed
qed

lemmas toy_sentence_defs =
  format_sentence_def new_sentence_def num_padding_def py_list_mul_def processed_sentence_def
  py_split_def toy_clean_str_def dict_get_def np_hstack_def reshape_1_row_def
  toy_vocabulary_def lookup_of_alist

section \<open>Padding of short sentences\<close>

text \<open>
  Claim C3. For every sentence whose cleaned token count is strictly less than
  \<open>sequence_length\<close>, \<open>format_sentence\<close> appends the padding token \<open><PAD/>\<close> on the
  right, as many times as tokens are missing, so that the padded sentence has exactly
  \<open>sequence_length\<close> tokens; whenever the function returns, its result is one row of
  exactly \<open>sequence_length\<close> indices, those of the padded tokens in order; and it does
  return when the tokens and the padding token are in the vocabulary.
\<close>

theorem format_sentence_pads_short:
  assumes "int (length (processed_sentence cl s)) < n"
  shows "new_sentence cl n s =
           processed_sentence cl s
             @ replicate (nat n - length (processed_sentence cl s)) ''<PAD/>''
       \<and> int (length (new_sentence cl n s)) = n
       \<and> (\<forall>v. format_sentence cl voc n s = Inr v \<longrightarrow>
             (\<exists>row. v = [row] \<and> int (length row) = n
                    \<and> map Some row = map (Mapping.lookup voc) (new_sentence cl n s)))
       \<and> (set (processed_sentence cl s) \<union> {''<PAD/>''} \<subseteq> Mapping.keys voc \<longrightarrow>
             (\<exists>v. format_sentence cl voc n s = Inr v))"
proof -
  let ?p = "processed_sentence cl s"
  have pad: "nat (n - int (length ?p)) = nat n - length ?p" using assms by linarith
  have shape: "new_sentence cl n s = ?p @ replicate (nat n - length ?p) ''<PAD/>''"
    by (simp add: new_sentence_def py_list_mul_def num_padding_def pad)
  have len: "int (length (new_sentence cl n s)) = n"
    using assms by (simp add: shape)
  have res: "\<exists>row. v = [row] \<and> int (length row) = n
                  \<and> map Some row = map (Mapping.lookup voc) (new_sentence cl n s)"
    if "format_sentence cl voc n s = Inr v" for v
  proof -
    from that obtain vs where vs: "lookup_all voc (new_sentence cl n s) = Inr vs" "v = [vs]"
      by (auto simp: format_sentence_cases split: sum.splits)
    from vs(1) have "length vs = length (new_sentence cl n s)" by (rule lookup_all_length)
    with len vs lookup_all_Inr_map[OF vs(1)] show ?thesis by simp
  qed
  have ex: "\<exists>v. format_sentence cl voc n s = Inr v"
    if "set ?p \<union> {''<PAD/>''} \<subseteq> Mapping.keys voc"
  proof -
    from that have "set (new_sentence cl n s) \<subseteq> Mapping.keys voc"
      by (auto simp: shape)
    then obtain vs where "lookup_all voc (new_sentence cl n s) = Inr vs"
      using lookup_all_Inr_iff by blast
    then show ?thesis by (simp add: format_sentence_cases)
  qed
  from shape len res ex show ?thesis by blast
qed

theorem format_sentence_pads_short_witness:
  "int (length (processed_sentence toy_clean_str ''good movie'')) < 4
   \<and> set (processed_sentence toy_clean_str ''good movie'') \<union> {''<PAD/>''}
       \<subseteq> Mapping.keys toy_vocabulary
   \<and> new_sentence toy_clean_str 4 ''good movie'' = [''good'', ''movie'', ''<PAD/>'', ''<PAD/>'']
   \<and> int (length (new_sentence toy_clean_str 4 ''good movie'')) = 4
   \<and> format_sentence toy_clean_str toy_vocabulary 4 ''good movie'' = Inr [[1, 2, 0, 0]]"
proof -
  have h: "int (length (processed_sentence toy_clean_str ''good movie'')) < 4"
    by (simp add: toy_sentence_defs)
  have k: "set (processed_sentence toy_clean_str ''good movie'') \<union> {''<PAD/>''}
             \<subseteq> Mapping.keys toy_vocabulary"
    by (simp add: toy_sentence_defs)
  have r: "format_sentence toy_clean_str toy_vocabulary 4 ''good movie'' = Inr [[1, 2, 0, 0]]"
    by code_simp
  have p: "new_sentence toy_clean_str 4 ''good movie'' = [''good'', ''movie'', ''<PAD/>'', ''<PAD/>'']"
    by code_simp
  from format_sentence_pads_short [OF h, of toy_vocabulary] h k r p show ?thesis
    by simp
qed

section \<open>Sentences longer than the sequence length\<close>

text \<open>
  Claim C9. For every sentence whose cleaned token count exceeds \<open>sequence_length\<close>,
  the padding count is negative, no padding token is appended and nothing is cut: the
  padded sentence is the token list itself. The only exception the function can raise is
  the lookup error of a token missing from the vocabulary; when all tokens are in the
  vocabulary it returns, and what it returns is one row with one index per token, longer
  than \<open>sequence_length\<close>.
\<close>

theorem format_sentence_over_length:
  assumes "n < int (length (processed_sentence cl s))"
  shows "num_padding cl n s < 0
       \<and> new_sentence cl n s = processed_sentence cl s
       \<and> (\<forall>v. format_sentence cl voc n s = Inr v \<longrightarrow>
             (\<exists>row. v = [row] \<and> length row = length (processed_sentence cl s)
                    \<and> n < int (length row)
                    \<and> map Some row = map (Mapping.lookup voc) (processed_sentence cl s)))
       \<and> (set (processed_sentence cl s) \<subseteq> Mapping.keys voc \<longrightarrow>
             (\<exists>v. format_sentence cl voc n s = Inr v))
       \<and> (\<forall>e. format_sentence cl voc n s = Inl e \<longrightarrow>
             (\<exists>w \<in> set (processed_sentence cl s). Mapping.lookup voc w = None \<and> e = KeyError w))"
proof -
  let ?p = "processed_sentence cl s"
  have neg: "num_padding cl n s < 0"
    using assms by (simp add: num_padding_def)
  then have same: "new_sentence cl n s = ?p"
    by (simp add: new_sentence_def py_list_mul_def)
  have res: "\<exists>row. v = [row] \<and> length row = length ?p \<and> n < int (length row)
                  \<and> map Some row = map (Mapping.lookup voc) ?p"
    if "format_sentence cl voc n s = Inr v" for v
  proof -
    from that obtain vs where vs: "lookup_all voc ?p = Inr vs" "v = [vs]"
      by (auto simp: format_sentence_cases same split: sum.splits)
    from vs(1) have "length vs = length ?p" by (rule lookup_all_length)
    with assms vs lookup_all_Inr_map[OF vs(1)] show ?thesis by simp
  qed
  have ex: "\<exists>v. format_sentence cl voc n s = Inr v" if "set ?p \<subseteq> Mapping.keys voc"
  proof -
    from that obtain vs where "lookup_all voc ?p = Inr vs"
      using lookup_all_Inr_iff by blast
    then show ?thesis by (simp add: format_sentence_cases same)
  qed
  have err: "\<exists>w \<in> set ?p. Mapping.lookup voc w = None \<and> e = KeyError w"
    if "format_sentence cl voc n s = Inl e" for e
  proof -
    from that have "lookup_all voc ?p = Inl e"
      by (auto simp: format_sentence_cases same split: sum.splits)
    then show ?thesis by (rule lookup_all_Inl)
  qed
  from neg same res ex err show ?thesis by blast
qed

theorem format_sentence_over_length_witness:
  "1 < int (length (processed_sentence toy_clean_str ''good bad movie''))
   \<and> set (processed_sentence toy_clean_str ''good bad movie'') \<subseteq> Mapping.keys toy_vocabulary
   \<and> num_padding toy_clean_str 1 ''good bad movie'' = - 2
   \<and> new_sentence toy_clean_str 1 ''good bad movie'' = [''good'', ''bad'', ''movie'']
   \<and> format_sentence toy_clean_str toy_vocabulary 1 ''good bad movie'' = Inr [[1, 3, 2]]
   \<and> format_sentence toy_clean_str toy_vocabulary 1 ''good ugh movie'' = Inl (KeyError ''ugh'')"
proof -
  have h: "1 < int (length (processed_sentence toy_clean_str ''good bad movie''))"
    by (simp add: toy_sentence_defs)
  have k: "set (processed_sentence toy_clean_str ''good bad movie'') \<subseteq> Mapping.keys toy_vocabulary"
    by (simp add: toy_sentence_defs)
  have r: "format_sentence toy_clean_str toy_vocabulary 1 ''good bad movie'' = Inr [[1, 3, 2]]"
    by (simp add: toy_sentence_defs)
  have e: "format_sentence toy_clean_str toy_vocabulary 1 ''good ugh movie'' = Inl (KeyError ''ugh'')"
    by (simp add: toy_sentence_defs)
  have p: "new_sentence toy_clean_str 1 ''good bad movie'' = [''good'', ''bad'', ''movie'']"
    by code_simp
  have q: "num_padding toy_clean_str 1 ''good bad movie'' = - 2"
    by (simp add: toy_sentence_defs)
  from format_sentence_over_length [OF h, of toy_vocabulary] h k r e p q show ?thesis
    by simp
qed

section \<open>Tokens outside the vocabulary\<close>

text \<open>
  Claim C2. When the padded sentence holds a token that is absent from the vocabulary,
  \<open>format_sentence\<close> raises the lookup error \<open>KeyError\<close> of a token of the sentence
  that the vocabulary lacks: no index is substituted and nothing is returned. At
  prediction time the exception ends the run before the model is called.
\<close>

theorem out_of_vocabulary_is_fatal:
  assumes "w \<in> set (new_sentence (clean_str E) (sequence_length cfg) (sentence cfg))"
      and "Mapping.lookup voc w = None"
  shows "\<exists>u \<in> set (new_sentence (clean_str E) (sequence_length cfg) (sentence cfg)).
           Mapping.lookup voc u = None
         \<and> format_sentence (clean_str E) voc (sequence_length cfg) (sentence cfg)
             = Inl (KeyError u)
         \<and> (ACTION cfg = ''predict'' \<longrightarrow>
              predicting E cfg voc m ws wd = (wd, Inl (KeyError u)))"
proof -
  let ?ns = "new_sentence (clean_str E) (sequence_length cfg) (sentence cfg)"
  from assms have "\<not> set ?ns \<subseteq> Mapping.keys voc"
    by (auto simp: keys_is_none_rep)
  then have "\<nexists>vs. lookup_all voc ?ns = Inr vs"
    using lookup_all_Inr_iff by blast
  then obtain e where e: "lookup_all voc ?ns = Inl e"
    by (cases "lookup_all voc ?ns") auto
  from lookup_all_Inl[OF e] obtain u where u: "u \<in> set ?ns" "Mapping.lookup voc u = None" "e = KeyError u"
    by blast
  from e u have f: "format_sentence (clean_str E) voc (sequence_length cfg) (sentence cfg) = Inl (KeyError u)"
    by (simp add: format_sentence_cases)
  then have "ACTION cfg = ''predict'' \<longrightarrow> predicting E cfg voc m ws wd = (wd, Inl (KeyError u))"
    by (simp add: predicting_def)
  with u f show ?thesis by blast
qed

theorem out_of_vocabulary_is_fatal_witness:
  "''ugh'' \<in> set (new_sentence (clean_str toy_externals) (sequence_length toy_config) ''good ugh'')
   \<and> Mapping.lookup toy_vocabulary ''ugh'' = None
   \<and> ACTION (toy_config\<lparr>sentence := ''good ugh''\<rparr>) = ''predict''
   \<and> format_sentence (clean_str toy_externals) toy_vocabulary (sequence_length toy_config) ''good ugh''
       = Inl (KeyError ''ugh'')
   \<and> predicting toy_externals (toy_config\<lparr>sentence := ''good ugh''\<rparr>) toy_vocabulary toy_model 7
       toy_world = (toy_world, Inl (KeyError ''ugh''))"
proof -
  have a: "''ugh'' \<in> set (new_sentence (clean_str toy_externals)
                 (sequence_length (toy_config\<lparr>sentence := ''good ugh''\<rparr>))
                 (sentence (toy_config\<lparr>sentence := ''good ugh''\<rparr>)))"
    by (simp add: toy_sentence_defs toy_externals_def toy_config_def source_config_def)
  have b: "Mapping.lookup toy_vocabulary ''ugh'' = None"
    by (simp add: toy_sentence_defs)
  have c: "ACTION (toy_config\<lparr>sentence := ''good ugh''\<rparr>) = ''predict''"
    by (simp add: toy_config_def source_config_def)
  have d: "format_sentence (clean_str toy_externals) toy_vocabulary (sequence_length toy_config) ''good ugh''
       = Inl (KeyError ''ugh'')"
    by (simp add: toy_sentence_defs toy_externals_def toy_config_def source_config_def)
  from out_of_vocabulary_is_fatal [OF a b, of toy_model 7 toy_world] a b c d show ?thesis
    by auto
qed

section \<open>The label of a probability\<close>

text \<open>
  Claim C4. For every output probability \<open>p\<close> of the model, the label is Positive
  exactly when \<open>p \<ge> 0.5\<close> and Negative exactly when \<open>p < 0.5\<close>; the boundary value
  \<open>0.5\<close> is Positive. The driver prints that label for the probability the model
  returned for the encoded sentence.
\<close>

theorem mood_threshold:
  "(mood p = ''Positive'' \<longleftrightarrow> p \<ge> 0.5) \<and> (mood p = ''Negative'' \<longleftrightarrow> p < 0.5)
   \<and> mood 0.5 = ''Positive''
   \<and> (ACTION cfg = ''predict''
        \<and> format_sentence (clean_str E) voc (sequence_length cfg) (sentence cfg) = Inr v
        \<and> predict E m ws v = Inr p \<longrightarrow>
        predicting E cfg voc m ws wd =
          (wd\<lparr>trace := trace wd @
               [Call_predict v,
                Print [sentence cfg, CHR 0x0A # ''is'',
                       if p \<ge> 0.5 then ''Positive'' else ''Negative'', ''sentence'']]\<rparr>,
           Inr ()))"
  by (simp add: mood_def predicting_def emit_def not_le)

theorem mood_threshold_witness:
  "ACTION toy_config = ''predict''
   \<and> format_sentence (clean_str toy_externals) toy_vocabulary (sequence_length toy_config)
        (sentence toy_config) = Inr [[1, 2]]
   \<and> predict toy_externals toy_model 7 [[1, 2]] = Inr 0.5
   \<and> predict toy_externals toy_model 8 [[1, 2]] = Inr 0.25
   \<and> predicting toy_externals toy_config toy_vocabulary toy_model 7 toy_world =
        (toy_world\<lparr>trace := [Call_predict [[1, 2]],
                  Print [''good movie'', CHR 0x0A # ''is'', ''Positive'', ''sentence'']]\<rparr>, Inr ())
   \<and> predicting toy_externals toy_config toy_vocabulary toy_model 8 toy_world =
        (toy_world\<lparr>trace := [Call_predict [[1, 2]],
                  Print [''good movie'', CHR 0x0A # ''is'', ''Negative'', ''sentence'']]\<rparr>, Inr ())"
proof -
  have a: "ACTION toy_config = ''predict''"
    by (simp add: toy_config_def source_config_def)
  have f: "format_sentence (clean_str toy_externals) toy_vocabulary (sequence_length toy_config)
        (sentence toy_config) = Inr [[1, 2]]"
    by (simp add: toy_sentence_defs toy_externals_def toy_config_def source_config_def)
  have p7: "predict toy_externals toy_model 7 [[1, 2]] = Inr 0.5"
    by (simp add: toy_externals_def)
  have p8: "predict toy_externals toy_model 8 [[1, 2]] = Inr 0.25"
    by (simp add: toy_externals_def)
  have s: "sentence toy_config = ''good movie''"
    by (simp add: toy_config_def source_config_def)
  have t: "trace toy_world = []"
    by (simp add: toy_world_def)
  from mood_threshold [of "0.5" toy_config toy_externals toy_vocabulary "[[1, 2]]" toy_model 7 toy_world]
       mood_threshold [of "0.25" toy_config toy_externals toy_vocabulary "[[1, 2]]" toy_model 8 toy_world]
       a f p7 p8
  show ?thesis
    by (simp add: s t)
qed

section \<open>The convolution branches\<close>

lemma conv_loop_append:
  "conv_loop cfg gin fs convs = convs @ map (conv_branch cfg gin) fs"
  by (induction fs arbitrary: convs) auto

lemma graph_empty: "filter_sizes cfg = [] \<Longrightarrow> graph cfg = Inl IndexError"
  by (simp add: graph_def Let_def np_index_def)

text \<open>
  Claim C5. For a non-empty tuple of filter sizes the builder makes one branch per filter
  width, in the order of the tuple: branch \<open>i\<close> is a convolution with \<open>num_filters\<close>
  output channels, the \<open>i\<close>-th width and relu activation on the input, then max-pooling
  with window 2, then flattening. With more than one width the output of the graph is the
  concatenation of the branches in that order; with a single width it is that branch
  itself.
\<close>

theorem graph_branches:
  assumes "filter_sizes cfg \<noteq> []"
  shows "\<exists>convs.
           length convs = length (filter_sizes cfg)
         \<and> (\<forall>i < length convs.
              convs ! i =
                Flatten (MaxPooling1D 2
                  (Convolution1D (num_filters cfg) (filter_sizes cfg ! i) ''valid'' ''relu'' 1
                     (Input (sequence_length cfg, embedding_dim cfg)))))
         \<and> graph cfg =
             Inr (Model (Input (sequence_length cfg, embedding_dim cfg))
                    (if length (filter_sizes cfg) > 1 then Merge ''concat'' convs
                     else convs ! 0))"
proof -
  let ?gin = "Input (sequence_length cfg, embedding_dim cfg)"
  let ?convs = "map (conv_branch cfg ?gin) (filter_sizes cfg)"
  have loop: "conv_loop cfg ?gin (filter_sizes cfg) [] = ?convs"
    by (simp add: conv_loop_append)
  have len: "length ?convs = length (filter_sizes cfg)" by simp
  have nth: "\<forall>i < length ?convs.
               ?convs ! i = Flatten (MaxPooling1D 2
                  (Convolution1D (num_filters cfg) (filter_sizes cfg ! i) ''valid'' ''relu'' 1 ?gin))"
    by (simp add: conv_branch_def)
  from assms have pos: "0 < length (filter_sizes cfg)" by simp
  have g: "graph cfg = Inr (Model ?gin (if length (filter_sizes cfg) > 1
                                          then Merge ''concat'' ?convs else ?convs ! 0))"
    using pos by (simp add: graph_def Let_def loop np_index_def)
  from len nth g show ?thesis by blast
qed

theorem graph_branches_witness:
  "filter_sizes source_config \<noteq> []
   \<and> graph source_config =
       Inr (Model (Input (56, 20))
              (Merge ''concat''
                 [Flatten (MaxPooling1D 2 (Convolution1D 3 3 ''valid'' ''relu'' 1 (Input (56, 20)))),
                  Flatten (MaxPooling1D 2 (Convolution1D 3 4 ''valid'' ''relu'' 1 (Input (56, 20))))]))
   \<and> graph (source_config\<lparr>filter_sizes := [5]\<rparr>) =
       Inr (Model (Input (56, 20))
              (Flatten (MaxPooling1D 2 (Convolution1D 3 5 ''valid'' ''relu'' 1 (Input (56, 20))))))"
proof -
  have a: "filter_sizes source_config \<noteq> []" by (simp add: source_config_def)
  have b: "filter_sizes (source_config\<lparr>filter_sizes := [5]\<rparr>) \<noteq> []" by simp
  have g2: "graph source_config =
       Inr (Model (Input (56, 20))
              (Merge ''concat''
                 [Flatten (MaxPooling1D 2 (Convolution1D 3 3 ''valid'' ''relu'' 1 (Input (56, 20)))),
                  Flatten (MaxPooling1D 2 (Convolution1D 3 4 ''valid'' ''relu'' 1 (Input (56, 20))))]))"
    by (simp add: graph_def Let_def source_config_def conv_branch_def)
  have g1: "graph (source_config\<lparr>filter_sizes := [5]\<rparr>) =
       Inr (Model (Input (56, 20))
              (Flatten (MaxPooling1D 2 (Convolution1D 3 5 ''valid'' ''relu'' 1 (Input (56, 20))))))"
    by (simp add: graph_def Let_def source_config_def conv_branch_def np_index_def)
  from graph_branches [OF a] graph_branches [OF b] a g2 g1 show ?thesis by simp
qed

section \<open>What each part of the script does to the world\<close>

lemma data_preparation_world:
  "data_preparation E cfg w = (w1, res) \<Longrightarrow>
     files w1 = files w \<and> (\<exists>evs. trace w1 = trace w @ evs \<and> (\<forall>e \<in> set evs. quiet e))"
  by (auto simp: data_preparation_def Let_def emit_def quiet_def
           split: prod.splits if_splits sum.splits)

lemma shuffle_data_world:
  "shuffle_data E x y voc w = (w1, res) \<Longrightarrow>
     files w1 = files w \<and> (\<exists>evs. trace w1 = trace w @ evs \<and> (\<forall>e \<in> set evs. quiet e))"
  by (auto simp: shuffle_data_def Let_def emit_def quiet_def
           split: prod.splits if_splits sum.splits)

lemma building_model_world:
  "building_model cfg voc ew w = (w1, res) \<Longrightarrow>
     rng w1 = rng w \<and> files w1 = files w \<and> (\<exists>evs. trace w1 = trace w @ evs \<and> (\<forall>e \<in> set evs. quiet e))"
  by (auto simp: building_model_def Let_def emit_def quiet_def
           split: prod.splits if_splits sum.splits)

lemma before_training_world:
  assumes "before_training E cfg w = (w3, res)"
  shows "files w3 = files w \<and> (\<exists>evs. trace w3 = trace w @ evs \<and> (\<forall>e \<in> set evs. quiet e))"
proof -
  obtain w1 r1 where d: "data_preparation E cfg w = (w1, r1)" by (cases "data_preparation E cfg w")
  from data_preparation_world[OF d] obtain e1 where
    w1: "files w1 = files w" "trace w1 = trace w @ e1" "\<forall>e \<in> set e1. quiet e" by blast
  show ?thesis
  proof (cases r1)
    case (Inl e)
    with d assms w1 show ?thesis by (auto simp: before_training_def)
  next
    case (Inr a)
    obtain x y voc ew where a: "a = (x, y, voc, ew)" by (cases a)
    obtain w2 r2 where s: "shuffle_data E x y voc w1 = (w2, r2)" by (cases "shuffle_data E x y voc w1")
    from shuffle_data_world[OF s] obtain e2 where
      w2: "files w2 = files w1" "trace w2 = trace w1 @ e2" "\<forall>e \<in> set e2. quiet e" by blast
    show ?thesis
    proof (cases r2)
      case (Inl e)
      with d Inr a s assms w1 w2 show ?thesis by (auto simp: before_training_def)
    next
      case r2: (Inr b)
      obtain idx xs ys where b: "b = (idx, xs, ys)" by (cases b)
      obtain w3' r3 where m: "building_model cfg voc ew w2 = (w3', r3)"
        by (cases "building_model cfg voc ew w2")
      from building_model_world[OF m] obtain e3 where
        w3: "files w3' = files w2" "trace w3' = trace w2 @ e3" "\<forall>e \<in> set e3. quiet e" by blast
      from d Inr a s r2 b m assms have "w3 = w3'"
        by (auto simp: before_training_def split: sum.splits)
      with w1 w2 w3 show ?thesis by auto
    qed
  qed
qed

lemma predicting_world:
  "predicting E cfg voc m ws w = (w1, res) \<Longrightarrow>
     rng w1 = rng w \<and> files w1 = files w
     \<and> (\<exists>evs. trace w1 = trace w @ evs \<and> (\<forall>e \<in> set evs. \<not> is_fit e \<and> \<not> is_save e \<and> \<not> is_load e))"
  by (auto simp: predicting_def Let_def emit_def split: prod.splits if_splits sum.splits)

lemma training_load:
  "ACTION cfg = ''predict'' \<Longrightarrow> files w (weights_file cfg) = Some ws \<Longrightarrow>
   training E cfg m xs ys w = (w\<lparr>trace := trace w @ [Call_load_weights (weights_file cfg)]\<rparr>, Inr ws)"
  by (simp add: training_def os_path_exists_def load_weights_def emit_def)

lemma training_fit:
  "\<not> (ACTION cfg = ''predict'' \<and> os_path_exists w (weights_file cfg)) \<Longrightarrow>
   fit E (rng w) m xs ys (batch_size cfg) (num_epochs cfg) (val_split cfg) = (ws, r) \<Longrightarrow>
   training E cfg m xs ys w =
     (w\<lparr>rng := r, files := (files w)(weights_file cfg \<mapsto> ws),
        trace := trace w @ [Call_fit xs ys (batch_size cfg) (num_epochs cfg) (val_split cfg),
                            Print [''dumping weights to file...''],
                            Call_save_weights (weights_file cfg) True]\<rparr>, Inr ws)"
  by (auto simp: training_def save_weights_def emit_def)

lemma script_after:
  "before_training E cfg w = (w3, Inr (voc, m, idx, xs, ys)) \<Longrightarrow>
   training E cfg m xs ys w3 = (w4, Inr ws) \<Longrightarrow>
   script E cfg w = predicting E cfg voc m ws w4"
  by (simp add: script_def)

lemma events_of_run_after:
  assumes b: "before_training E cfg w = (w3, Inr (voc, m, idx, xs, ys))"
      and t: "training E cfg m xs ys w3 = (w4, Inr ws)"
      and tr: "trace w4 = trace w3 @ tev"
  shows "\<exists>bev pev. events_of_run E cfg w = bev @ tev @ pev
           \<and> (\<forall>e \<in> set bev. quiet e)
           \<and> (\<forall>e \<in> set pev. \<not> is_fit e \<and> \<not> is_save e \<and> \<not> is_load e)
           \<and> files (fst (script E cfg w)) = files w4"
proof -
  from before_training_world[OF b] obtain bev where
    bev: "trace w3 = trace w @ bev" "\<forall>e \<in> set bev. quiet e" by blast
  obtain w5 r5 where p: "predicting E cfg voc m ws w4 = (w5, r5)"
    by (cases "predicting E cfg voc m ws w4")
  from predicting_world[OF p] obtain pev where
    pev: "files w5 = files w4" "trace w5 = trace w4 @ pev"
         "\<forall>e \<in> set pev. \<not> is_fit e \<and> \<not> is_save e \<and> \<not> is_load e" by blast
  from script_after[OF b t] p have s: "script E cfg w = (w5, r5)" by simp
  have "events_of_run E cfg w = bev @ tev @ pev"
    by (simp add: events_of_run_def s pev tr bev)
  with bev pev s show ?thesis by auto
qed

lemma main_model_layers:
  "layers (main_model cfg n ew g) =
     (if model_variation cfg = ''CNN-static'' then []
      else [Embedding n (embedding_dim cfg) (sequence_length cfg) ew])
     @ [Dropout (fst (dropout_prob cfg)) (Some (sequence_length cfg, embedding_dim cfg)),
        Graph g, Dense (hidden_dims cfg), Dropout (snd (dropout_prob cfg)) None,
        Activation ''relu'', Dense 1, Activation ''sigmoid'']"
  by (simp add: main_model_def add_def Let_def)

lemma before_training_Inr:
  assumes "before_training E cfg w = (w3, Inr (voc, m, idx, xs, ys))"
  shows "\<exists>w1 x y ew w2 g.
           data_preparation E cfg w = (w1, Inr (x, y, voc, ew))
         \<and> shuffle_data E x y voc w1 = (w2, Inr (idx, xs, ys))
         \<and> graph cfg = Inr g
         \<and> m = main_model cfg (Mapping.size voc) ew g
         \<and> w3 = emit Call_compile w2"
  using assms
  by (auto simp: before_training_def building_model_def split: prod.splits sum.splits)

lemma shuffle_data_Inr:
  assumes "shuffle_data E x y voc w1 = (w2, Inr (idx, xs, ys))"
  shows "np_random_permutation E (rng w1) (np_arange (length y)) = (idx, rng w2)
       \<and> trace w2 = trace w1 @ [Call_permutation,
                                 Print_format_d ''Vocabulary Size: {:d}'' (Mapping.size voc)]
       \<and> files w2 = files w1
       \<and> take_x x idx = Inr xs
       \<and> (\<exists>rows. np_take y idx = Inr rows \<and> argmax_axis1 rows = Inr ys)"
  using assms
  by (auto simp: shuffle_data_def Let_def emit_def split: prod.splits sum.splits)

lemma take_x_rows: "take_x x idx = Inr xs \<Longrightarrow> np_take (x_rows x) idx = Inr (x_rows xs)"
  by (auto simp: take_x_def x_rows_def np_take_map split: xdata.splits sum.splits)

lemma shuffle_pairs:
  assumes "shuffle_data E x y voc w1 = (w2, Inr (idx, xs, ys))"
  shows "length (x_rows xs) = length idx \<and> length ys = length idx
       \<and> (\<forall>k < length idx.
             np_index (x_rows x) (idx ! k) = Inr (x_rows xs ! k)
           \<and> (\<exists>row. np_index y (idx ! k) = Inr row \<and> np_argmax row = Inr (ys ! k)))"
proof -
  from shuffle_data_Inr[OF assms] obtain rows where
    tx: "take_x x idx = Inr xs" and ty: "np_take y idx = Inr rows" and am: "argmax_axis1 rows = Inr ys"
    by blast
  note X = np_take_nth[OF take_x_rows[OF tx]]
  note Y = np_take_nth[OF ty]
  note A = argmax_axis1_nth[OF am]
  from X Y A show ?thesis by auto
qed

lemma shuffle_permutes_pairs:
  assumes sh: "shuffle_data E x y voc w1 = (w2, Inr (idx, xs, ys))"
      and perm: "mset idx = mset (np_arange (length y))"
      and len: "length (x_rows x) = length y"
  shows "\<exists>labels. argmax_axis1 y = Inr labels
           \<and> mset (zip (x_rows xs) ys) = mset (zip (x_rows x) labels)"
proof -
  let ?n = "length y"
  from shuffle_pairs[OF sh] have
    lx: "length (x_rows xs) = length idx" and ly: "length ys = length idx" and
    el: "\<And>k. k < length idx \<Longrightarrow>
           np_index (x_rows x) (idx ! k) = Inr (x_rows xs ! k)
         \<and> (\<exists>row. np_index y (idx ! k) = Inr row \<and> np_argmax row = Inr (ys ! k))"
    by blast+
  from perm have sidx: "set idx = int ` {0..<?n}"
    by (metis mset_eq_setD np_arange_def set_map set_upt)
  have rng: "0 \<le> idx ! k \<and> idx ! k < int ?n" if "k < length idx" for k
  proof -
    from that have "idx ! k \<in> set idx" by simp
    with sidx show ?thesis by auto
  qed
  have xk: "x_rows xs ! k = x_rows x ! nat (idx ! k)" if "k < length idx" for k
    using el[OF that] rng[OF that] len by (simp add: np_index_in_range)
  have yk: "np_argmax (y ! nat (idx ! k)) = Inr (ys ! k)" if "k < length idx" for k
    using el[OF that] rng[OF that] by (auto simp: np_index_in_range)
  have "\<forall>row \<in> set y. \<exists>a. np_argmax row = Inr a"
  proof
    fix row assume "row \<in> set y"
    then obtain j where j: "j < ?n" "row = y ! j" by (auto simp: in_set_conv_nth)
    then have "int j \<in> set idx" using sidx by simp
    then obtain k where k: "k < length idx" "idx ! k = int j" by (auto simp: in_set_conv_nth)
    from yk[OF k(1)] k(2) j(2) show "\<exists>a. np_argmax row = Inr a" by auto
  qed
  then obtain labels where lab: "argmax_axis1 y = Inr labels"
    using argmax_axis1_all by blast
  from argmax_axis1_nth[OF lab] have
    ll: "length labels = ?n" and ln: "\<And>j. j < ?n \<Longrightarrow> np_argmax (y ! j) = Inr (labels ! j)"
    by blast+
  let ?g = "\<lambda>i. (x_rows x ! nat i, labels ! nat i)"
  have z1: "zip (x_rows xs) ys = map ?g idx"
  proof (rule nth_equalityI)
    show "length (zip (x_rows xs) ys) = length (map ?g idx)" by (simp add: lx ly)
  next
    fix k assume "k < length (zip (x_rows xs) ys)"
    then have k: "k < length idx" by (simp add: lx ly)
    from rng[OF k] have "nat (idx ! k) < ?n" by linarith
    from ln[OF this] yk[OF k] have "ys ! k = labels ! nat (idx ! k)" by simp
    with k xk[OF k] show "zip (x_rows xs) ys ! k = map ?g idx ! k" by (simp add: lx ly)
  qed
  have z2: "zip (x_rows x) labels = map ?g (np_arange ?n)"
    by (rule nth_equalityI) (simp_all add: len ll np_arange_def)
  have "mset (zip (x_rows xs) ys) = image_mset ?g (mset idx)" by (simp add: z1)
  also have "\<dots> = image_mset ?g (mset (np_arange ?n))" by (simp add: perm)
  also have "\<dots> = mset (zip (x_rows x) labels)" by (simp add: z2)
  finally show ?thesis using lab by blast
qed

text \<open>What the lines before the training compute does not depend on the world the run
  starts in: the generator is seeded first and nothing reads the files or the trace.\<close>

lemma data_preparation_det:
  "snd (data_preparation E cfg w) = snd (data_preparation E cfg w')
   \<and> rng (fst (data_preparation E cfg w)) = rng (fst (data_preparation E cfg w'))"
  by (simp add: data_preparation_def Let_def split_def emit_def split: sum.splits)

lemma shuffle_data_det:
  "rng w = rng w' \<Longrightarrow>
   snd (shuffle_data E x y voc w) = snd (shuffle_data E x y voc w')
   \<and> rng (fst (shuffle_data E x y voc w)) = rng (fst (shuffle_data E x y voc w'))"
  by (simp add: shuffle_data_def Let_def split_def emit_def split: sum.splits)

lemma building_model_det:
  "snd (building_model cfg voc ew w) = snd (building_model cfg voc ew w')
   \<and> rng (fst (building_model cfg voc ew w)) = rng w"
  by (simp add: building_model_def emit_def split: sum.splits)

lemma before_training_det:
  "snd (before_training E cfg w) = snd (before_training E cfg w')
   \<and> rng (fst (before_training E cfg w)) = rng (fst (before_training E cfg w'))"
proof -
  obtain w1 r1 where d: "data_preparation E cfg w = (w1, r1)"
    by (cases "data_preparation E cfg w")
  obtain w1' r1' where d': "data_preparation E cfg w' = (w1', r1')"
    by (cases "data_preparation E cfg w'")
  from data_preparation_det[of E cfg w w'] d d' have r1: "r1' = r1" and g1: "rng w1 = rng w1'"
    by simp_all
  show ?thesis
  proof (cases r1)
    case (Inl e)
    with d d' r1 g1 show ?thesis by (simp add: before_training_def)
  next
    case (Inr a)
    obtain x y voc ew where a: "a = (x, y, voc, ew)" by (cases a)
    obtain w2 r2 where s: "shuffle_data E x y voc w1 = (w2, r2)"
      by (cases "shuffle_data E x y voc w1")
    obtain w2' r2' where s': "shuffle_data E x y voc w1' = (w2', r2')"
      by (cases "shuffle_data E x y voc w1'")
    from shuffle_data_det[OF g1, of E x y voc] s s' have r2: "r2' = r2" and g2: "rng w2 = rng w2'"
      by simp_all
    show ?thesis
    proof (cases r2)
      case (Inl e)
      with d d' r1 Inr a s s' r2 g2 show ?thesis by (simp add: before_training_def)
    next
      case r: (Inr b)
      obtain idx xs ys where b: "b = (idx, xs, ys)" by (cases b)
      obtain w3 r3 where m: "building_model cfg voc ew w2 = (w3, r3)"
        by (cases "building_model cfg voc ew w2")
      obtain w3' r3' where m': "building_model cfg voc ew w2' = (w3', r3')"
        by (cases "building_model cfg voc ew w2'")
      from building_model_det[of cfg voc ew w2 w2'] building_model_det[of cfg voc ew w2' w2] m m' g2
      have r3: "r3' = r3" and g3: "rng w3 = rng w3'" by simp_all
      from d d' r1 Inr a s s' r2 r b m m' r3 g3 show ?thesis
        by (cases r3) (simp_all add: before_training_def)
    qed
  qed
qed

text \<open>The lines before the training do not read the action.\<close>

lemma data_preparation_ACTION:
  "data_preparation E (cfg\<lparr>ACTION := a\<rparr>) w = data_preparation E cfg w"
  by (simp add: data_preparation_def Let_def split_def)

lemma conv_branch_ACTION: "conv_branch (cfg\<lparr>ACTION := a\<rparr>) = conv_branch cfg"
  by (simp add: conv_branch_def fun_eq_iff)

lemma graph_ACTION: "graph (cfg\<lparr>ACTION := a\<rparr>) = graph cfg"
  by (simp add: graph_def Let_def conv_loop_append conv_branch_ACTION)

lemma main_model_ACTION: "main_model (cfg\<lparr>ACTION := a\<rparr>) n ew g = main_model cfg n ew g"
  by (simp add: main_model_def Let_def)

lemma building_model_ACTION:
  "building_model (cfg\<lparr>ACTION := a\<rparr>) voc ew w = building_model cfg voc ew w"
  by (simp add: building_model_def graph_ACTION main_model_ACTION split: sum.splits)

lemma before_training_ACTION:
  "before_training E (cfg\<lparr>ACTION := a\<rparr>) w = before_training E cfg w"
  unfolding before_training_def data_preparation_ACTION building_model_ACTION ..

section \<open>The script on the small corpus\<close>

lemma toy_size: "Mapping.size toy_vocabulary = 4"
  by code_simp

lemma toy_cfg:
  "model_variation toy_config = ''CNN-non-static''" "sequence_length toy_config = 2"
  "embedding_dim toy_config = 2" "filter_sizes toy_config = [3, 4]" "num_filters toy_config = 3"
  "dropout_prob toy_config = (0.25, 0.5)" "hidden_dims toy_config = 100"
  "batch_size toy_config = 32" "num_epochs toy_config = 100" "val_split toy_config = 0.1"
  "min_word_count toy_config = 1" "w2v_context toy_config = 10" "ACTION toy_config = ''predict''"
  "weights_file toy_config = ''models/weights_file''" "sentence toy_config = ''good movie''"
  by (simp_all add: toy_config_def source_config_def)

lemma toy_data_preparation:
  "data_preparation toy_externals toy_config w =
     (w\<lparr>rng := 2, trace := trace w @ [Print [''Model variation is CNN-non-static''],
            Print [''Loading data...''], Call_load_data, Call_train_word2vec]\<rparr>,
      Inr (Indices [[1, 2], [3, 2], [1, 0]], [[0, 1], [1, 0], [0, 1]], toy_vocabulary,
           Some [[[0, 0], [1, 0], [0, 1], [1, 1]]]))"
  by (simp add: data_preparation_def toy_cfg Let_def emit_def toy_externals_def toy_data_def)

lemma toy_shuffle_data:
  "rng w = 2 \<Longrightarrow>
   shuffle_data toy_externals (Indices [[1, 2], [3, 2], [1, 0]]) [[0, 1], [1, 0], [0, 1]]
       toy_vocabulary w =
     (w\<lparr>rng := 3, trace := trace w @ [Call_permutation, Print_format_d ''Vocabulary Size: {:d}'' 4]\<rparr>,
      Inr ([2, 1, 0], Indices [[1, 0], [3, 2], [1, 2]], [1, 0, 1]))"
  by (simp add: shuffle_data_def Let_def emit_def toy_externals_def toy_size np_arange_def
        take_x_def np_index_def np_argmax_def upt_rec numeral_3_eq_3)

lemma toy_building_model:
  "building_model toy_config toy_vocabulary (Some [[[0, 0], [1, 0], [0, 1], [1, 1]]]) w =
     (w\<lparr>trace := trace w @ [Call_compile]\<rparr>, Inr toy_model)"
  by (simp add: building_model_def graph_def main_model_def add_def toy_cfg Let_def emit_def
        toy_size conv_branch_def toy_model_def)

lemma toy_before_training:
  "before_training toy_externals toy_config w =
     (w\<lparr>rng := 3, trace := trace w @ toy_setup_events\<rparr>,
      Inr (toy_vocabulary, toy_model, [2, 1, 0], Indices [[1, 0], [3, 2], [1, 2]], [1, 0, 1]))"
  by (simp add: before_training_def toy_data_preparation toy_shuffle_data toy_building_model
        toy_setup_events_def)

lemma toy_script_trained:
  "script toy_externals toy_config toy_world_trained =
     (toy_world_trained\<lparr>rng := 3,
        trace := toy_setup_events @
          [Call_load_weights ''models/weights_file'', Call_predict [[1, 2]],
           Print [''good movie'', CHR 0x0A # ''is'', ''Positive'', ''sentence'']]\<rparr>, Inr ())"
proof -
  have f: "format_sentence toy_clean_str toy_vocabulary 2 ''good movie'' = Inr [[1, 2]]"
    by code_simp
  show ?thesis
    unfolding script_def toy_before_training
    by (simp add: training_def os_path_exists_def load_weights_def
          toy_cfg toy_world_trained_def emit_def predicting_def f toy_externals_def mood_def)
qed

lemma toy_script_fresh:
  "script toy_externals toy_config toy_world =
     (\<lparr>rng = 4, files = [''models/weights_file'' \<mapsto> 43],
       trace = toy_setup_events @
          [Call_fit (Indices [[1, 0], [3, 2], [1, 2]]) [1, 0, 1] 32 100 0.1,
           Print [''dumping weights to file...''],
           Call_save_weights ''models/weights_file'' True,
           Call_predict [[1, 2]],
           Print [''good movie'', CHR 0x0A # ''is'', ''Negative'', ''sentence'']]\<rparr>, Inr ())"
proof -
  have f: "format_sentence toy_clean_str toy_vocabulary 2 ''good movie'' = Inr [[1, 2]]"
    by code_simp
  show ?thesis
    unfolding script_def toy_before_training
    by (simp add: training_def os_path_exists_def save_weights_def
          toy_cfg toy_world_def emit_def predicting_def f toy_externals_def mood_def Let_def)
qed

lemma toy_script_train_only:
  "script toy_externals (toy_config\<lparr>ACTION := ''train''\<rparr>) toy_world_trained =
     (\<lparr>rng = 4, files = [''models/weights_file'' \<mapsto> 43],
       trace = toy_setup_events @
          [Call_fit (Indices [[1, 0], [3, 2], [1, 2]]) [1, 0, 1] 32 100 0.1,
           Print [''dumping weights to file...''],
           Call_save_weights ''models/weights_file'' True]\<rparr>, Inr ())"
  unfolding script_def before_training_ACTION toy_before_training
  by (simp add: training_def os_path_exists_def save_weights_def
        toy_cfg toy_world_trained_def emit_def predicting_def toy_externals_def Let_def)

lemma toy_graph_value: "graph (toy_config\<lparr>model_variation := v\<rparr>) = Inr toy_graph"
  by (simp add: graph_def Let_def toy_cfg conv_branch_def toy_graph_def)

lemma toy_before_training_static:
  "before_training toy_externals toy_static toy_world =
     (\<lparr>rng = 3, files = Map.empty,
       trace = [Print [''Model variation is CNN-static''], Print [''Loading data...''],
                Call_load_data, Call_train_word2vec, Call_permutation,
                Print_format_d ''Vocabulary Size: {:d}'' 4, Call_compile]\<rparr>,
      Inr (toy_vocabulary,
           main_model toy_static 4 (Some [[[0, 0], [1, 0], [0, 1], [1, 1]]]) toy_graph,
           [2, 1, 0],
           Vectors [[[1, 0], [0, 0]], [[1, 1], [0, 1]], [[1, 0], [0, 1]]],
           [1, 0, 1]))"
proof -
  have d: "data_preparation toy_externals toy_static toy_world =
     (\<lparr>rng = 2, files = Map.empty,
       trace = [Print [''Model variation is CNN-static''], Print [''Loading data...''],
                Call_load_data, Call_train_word2vec]\<rparr>,
      Inr (Vectors [[[1, 0], [0, 1]], [[1, 1], [0, 1]], [[1, 0], [0, 0]]],
           [[0, 1], [1, 0], [0, 1]], toy_vocabulary,
           Some [[[0, 0], [1, 0], [0, 1], [1, 1]]]))"
    by (simp add: data_preparation_def toy_static_def toy_cfg Let_def emit_def toy_externals_def
          toy_data_def toy_world_def np_index_def)
  have s: "shuffle_data toy_externals
             (Vectors [[[1, 0], [0, 1]], [[1, 1], [0, 1]], [[1, 0], [0, 0]]])
             [[0, 1], [1, 0], [0, 1]] toy_vocabulary
             \<lparr>rng = 2, files = Map.empty,
              trace = [Print [''Model variation is CNN-static''], Print [''Loading data...''],
                Call_load_data, Call_train_word2vec]\<rparr> =
           (\<lparr>rng = 3, files = Map.empty,
             trace = [Print [''Model variation is CNN-static''], Print [''Loading data...''],
                Call_load_data, Call_train_word2vec, Call_permutation,
                Print_format_d ''Vocabulary Size: {:d}'' 4]\<rparr>,
            Inr ([2, 1, 0], Vectors [[[1, 0], [0, 0]], [[1, 1], [0, 1]], [[1, 0], [0, 1]]],
                 [1, 0, 1]))"
    by (simp add: shuffle_data_def Let_def emit_def toy_externals_def toy_size np_arange_def
          take_x_def np_index_def np_argmax_def upt_rec numeral_3_eq_3)
  show ?thesis
    unfolding before_training_def d
    by (simp add: s building_model_def toy_static_def toy_graph_value emit_def toy_size)
qed

lemma toy_before_training_rand:
  "before_training toy_externals toy_rand toy_world =
     (\<lparr>rng = 3, files = Map.empty,
       trace = [Print [''Model variation is CNN-rand''], Print [''Loading data...''],
                Call_load_data, Call_permutation,
                Print_format_d ''Vocabulary Size: {:d}'' 4, Call_compile]\<rparr>,
      Inr (toy_vocabulary, main_model toy_rand 4 None toy_graph, [2, 1, 0],
           Indices [[1, 0], [3, 2], [1, 2]], [1, 0, 1]))"
proof -
  have d: "data_preparation toy_externals toy_rand toy_world =
     (\<lparr>rng = 2, files = Map.empty,
       trace = [Print [''Model variation is CNN-rand''], Print [''Loading data...''],
                Call_load_data]\<rparr>,
      Inr (Indices [[1, 2], [3, 2], [1, 0]], [[0, 1], [1, 0], [0, 1]], toy_vocabulary, None))"
    by (simp add: data_preparation_def toy_rand_def toy_cfg Let_def emit_def toy_externals_def
          toy_data_def toy_world_def)
  show ?thesis
    unfolding before_training_def d
    by (simp add: toy_shuffle_data building_model_def toy_rand_def toy_graph_value emit_def toy_size)
qed

section \<open>An unknown model variation\<close>

text \<open>
  Claim C6. When the model variation is none of \<open>CNN-rand\<close>, \<open>CNN-non-static\<close> and
  \<open>CNN-static\<close>, the run ends with \<open>ValueError 'Unknown model variation'\<close> right after
  the data is loaded: all it did is seed the generator, print two lines and load the
  data. No permutation is drawn, no model is compiled, nothing is trained, saved, loaded
  or predicted, and no file changes.
\<close>

theorem unknown_model_variation_is_fatal:
  assumes "model_variation cfg \<noteq> ''CNN-rand''"
      and "model_variation cfg \<noteq> ''CNN-non-static''"
      and "model_variation cfg \<noteq> ''CNN-static''"
  shows "script E cfg w =
           (w\<lparr>rng := snd (load_data E (np_random_seed E 2)),
              trace := trace w @ [Print [''Model variation is '' @ model_variation cfg],
                                  Print [''Loading data...''], Call_load_data]\<rparr>,
            Inl (ValueError ''Unknown model variation''))
       \<and> files (fst (script E cfg w)) = files w
       \<and> events_of_run E cfg w =
           [Print [''Model variation is '' @ model_variation cfg],
            Print [''Loading data...''], Call_load_data]"
proof -
  have d: "data_preparation E cfg w =
           (w\<lparr>rng := snd (load_data E (np_random_seed E 2)),
              trace := trace w @ [Print [''Model variation is '' @ model_variation cfg],
                                  Print [''Loading data...''], Call_load_data]\<rparr>,
            Inl (ValueError ''Unknown model variation''))"
    using assms by (simp add: data_preparation_def Let_def emit_def split_def)
  then have s: "script E cfg w =
           (w\<lparr>rng := snd (load_data E (np_random_seed E 2)),
              trace := trace w @ [Print [''Model variation is '' @ model_variation cfg],
                                  Print [''Loading data...''], Call_load_data]\<rparr>,
            Inl (ValueError ''Unknown model variation''))"
    by (simp add: script_def before_training_def)
  then show ?thesis by (simp add: events_of_run_def)
qed

theorem unknown_model_variation_is_fatal_witness:
  "model_variation (toy_config\<lparr>model_variation := ''CNN-dynamic''\<rparr>) \<noteq> ''CNN-rand''
   \<and> model_variation (toy_config\<lparr>model_variation := ''CNN-dynamic''\<rparr>) \<noteq> ''CNN-non-static''
   \<and> model_variation (toy_config\<lparr>model_variation := ''CNN-dynamic''\<rparr>) \<noteq> ''CNN-static''
   \<and> script toy_externals (toy_config\<lparr>model_variation := ''CNN-dynamic''\<rparr>) toy_world =
       (\<lparr>rng = 2, files = Map.empty,
         trace = [Print [''Model variation is CNN-dynamic''], Print [''Loading data...''],
                  Call_load_data]\<rparr>,
        Inl (ValueError ''Unknown model variation''))"
proof -
  have a: "model_variation (toy_config\<lparr>model_variation := ''CNN-dynamic''\<rparr>) \<noteq> ''CNN-rand''"
    and b: "model_variation (toy_config\<lparr>model_variation := ''CNN-dynamic''\<rparr>) \<noteq> ''CNN-non-static''"
    and c: "model_variation (toy_config\<lparr>model_variation := ''CNN-dynamic''\<rparr>) \<noteq> ''CNN-static''"
    by simp_all
  from unknown_model_variation_is_fatal [OF a b c, of toy_externals toy_world] a b c
  show ?thesis
    by (simp add: toy_externals_def toy_world_def)
qed

section \<open>Train or load\<close>

text \<open>
  Claim C1. In a run that reaches line 150, training is skipped exactly when the action
  is \<open>predict\<close> and the weights file exists: then the weights are loaded from that
  file, no file changes and the run neither fits nor saves. In every other case the run
  fits the model on the shuffled data and then saves the fitted weights to the configured
  path, whatever was there before, and loads nothing.
\<close>

theorem training_gate:
  assumes "before_training E cfg w = (w3, Inr (voc, m, idx, xs, ys))"
  shows "(ACTION cfg = ''predict'' \<and> os_path_exists w (weights_file cfg) \<longrightarrow>
            (\<exists>ws. files w (weights_file cfg) = Some ws
                 \<and> training E cfg m xs ys w3 =
                     (w3\<lparr>trace := trace w3 @ [Call_load_weights (weights_file cfg)]\<rparr>, Inr ws))
            \<and> files (fst (script E cfg w)) = files w
            \<and> (\<forall>e \<in> set (events_of_run E cfg w). \<not> is_fit e \<and> \<not> is_save e)
            \<and> Call_load_weights (weights_file cfg) \<in> set (events_of_run E cfg w))
       \<and> (\<not> (ACTION cfg = ''predict'' \<and> os_path_exists w (weights_file cfg)) \<longrightarrow>
            (\<exists>ws r. fit E (rng w3) m xs ys (batch_size cfg) (num_epochs cfg) (val_split cfg) = (ws, r)
                 \<and> training E cfg m xs ys w3 =
                     (w3\<lparr>rng := r, files := (files w)(weights_file cfg \<mapsto> ws),
                         trace := trace w3 @
                           [Call_fit xs ys (batch_size cfg) (num_epochs cfg) (val_split cfg),
                            Print [''dumping weights to file...''],
                            Call_save_weights (weights_file cfg) True]\<rparr>, Inr ws)
                 \<and> files (fst (script E cfg w)) = (files w)(weights_file cfg \<mapsto> ws))
            \<and> Call_fit xs ys (batch_size cfg) (num_epochs cfg) (val_split cfg)
                 \<in> set (events_of_run E cfg w)
            \<and> Call_save_weights (weights_file cfg) True \<in> set (events_of_run E cfg w)
            \<and> (\<forall>e \<in> set (events_of_run E cfg w). \<not> is_load e))"
proof -
  from before_training_world[OF assms] have fw: "files w3 = files w" by blast
  have skip: ?thesis if g: "ACTION cfg = ''predict'' \<and> os_path_exists w (weights_file cfg)"
  proof -
    from g obtain ws where ws: "files w (weights_file cfg) = Some ws"
      by (auto simp: os_path_exists_def)
    let ?w4 = "w3\<lparr>trace := trace w3 @ [Call_load_weights (weights_file cfg)]\<rparr>"
    have t: "training E cfg m xs ys w3 = (?w4, Inr ws)"
      using g ws fw by (simp add: training_load)
    have tr: "trace ?w4 = trace w3 @ [Call_load_weights (weights_file cfg)]" by simp
    from events_of_run_after[OF assms t tr] obtain bev pev where
      ev: "events_of_run E cfg w = bev @ [Call_load_weights (weights_file cfg)] @ pev"
          "\<forall>e \<in> set bev. quiet e"
          "\<forall>e \<in> set pev. \<not> is_fit e \<and> \<not> is_save e \<and> \<not> is_load e"
          "files (fst (script E cfg w)) = files ?w4" by blast
    from ev have "\<forall>e \<in> set (events_of_run E cfg w). \<not> is_fit e \<and> \<not> is_save e"
      by (auto simp: quiet_def)
    moreover from ev have "Call_load_weights (weights_file cfg) \<in> set (events_of_run E cfg w)"
      by simp
    ultimately show ?thesis using g ws t ev(4) fw by auto
  qed
  have train: ?thesis if g: "\<not> (ACTION cfg = ''predict'' \<and> os_path_exists w (weights_file cfg))"
  proof -
    obtain ws r where f: "fit E (rng w3) m xs ys (batch_size cfg) (num_epochs cfg) (val_split cfg) = (ws, r)"
      by (cases "fit E (rng w3) m xs ys (batch_size cfg) (num_epochs cfg) (val_split cfg)")
    let ?tev = "[Call_fit xs ys (batch_size cfg) (num_epochs cfg) (val_split cfg),
                 Print [''dumping weights to file...''],
                 Call_save_weights (weights_file cfg) True]"
    let ?w4 = "w3\<lparr>rng := r, files := (files w)(weights_file cfg \<mapsto> ws), trace := trace w3 @ ?tev\<rparr>"
    from g fw have g3: "\<not> (ACTION cfg = ''predict'' \<and> os_path_exists w3 (weights_file cfg))"
      by (simp add: os_path_exists_def)
    have t: "training E cfg m xs ys w3 = (?w4, Inr ws)"
      using training_fit[OF g3 f] fw by simp
    have tr: "trace ?w4 = trace w3 @ ?tev" by simp
    from events_of_run_after[OF assms t tr] obtain bev pev where
      ev: "events_of_run E cfg w = bev @ ?tev @ pev"
          "\<forall>e \<in> set bev. quiet e"
          "\<forall>e \<in> set pev. \<not> is_fit e \<and> \<not> is_save e \<and> \<not> is_load e"
          "files (fst (script E cfg w)) = files ?w4" by blast
    from ev have "\<forall>e \<in> set (events_of_run E cfg w). \<not> is_load e"
      by (auto simp: quiet_def)
    moreover from ev have "Call_fit xs ys (batch_size cfg) (num_epochs cfg) (val_split cfg)
                 \<in> set (events_of_run E cfg w)"
        "Call_save_weights (weights_file cfg) True \<in> set (events_of_run E cfg w)"
      by simp_all
    ultimately show ?thesis using g f t ev(4) by auto
  qed
  from skip train show ?thesis by blast
qed

theorem training_gate_witness:
  "before_training toy_externals toy_config toy_world_trained =
     (toy_world_trained\<lparr>rng := 3, trace := toy_setup_events\<rparr>,
      Inr (toy_vocabulary, toy_model, [2, 1, 0], Indices [[1, 0], [3, 2], [1, 2]], [1, 0, 1]))
   \<and> ACTION toy_config = ''predict'' \<and> os_path_exists toy_world_trained (weights_file toy_config)
   \<and> files (fst (script toy_externals toy_config toy_world_trained)) = files toy_world_trained
   \<and> events_of_run toy_externals toy_config toy_world_trained =
       toy_setup_events @
         [Call_load_weights ''models/weights_file'', Call_predict [[1, 2]],
          Print [''good movie'', CHR 0x0A # ''is'', ''Positive'', ''sentence'']]
   \<and> before_training toy_externals toy_config toy_world =
     (toy_world\<lparr>rng := 3, trace := toy_setup_events\<rparr>,
      Inr (toy_vocabulary, toy_model, [2, 1, 0], Indices [[1, 0], [3, 2], [1, 2]], [1, 0, 1]))
   \<and> \<not> os_path_exists toy_world (weights_file toy_config)
   \<and> files (fst (script toy_externals toy_config toy_world)) = [''models/weights_file'' \<mapsto> 43]
   \<and> events_of_run toy_externals toy_config toy_world =
       toy_setup_events @
         [Call_fit (Indices [[1, 0], [3, 2], [1, 2]]) [1, 0, 1] 32 100 0.1,
          Print [''dumping weights to file...''],
          Call_save_weights ''models/weights_file'' True,
          Call_predict [[1, 2]],
          Print [''good movie'', CHR 0x0A # ''is'', ''Negative'', ''sentence'']]"
proof -
  have b1: "before_training toy_externals toy_config toy_world_trained =
     (toy_world_trained\<lparr>rng := 3, trace := toy_setup_events\<rparr>,
      Inr (toy_vocabulary, toy_model, [2, 1, 0], Indices [[1, 0], [3, 2], [1, 2]], [1, 0, 1]))"
    by (simp add: toy_before_training toy_world_trained_def)
  have b2: "before_training toy_externals toy_config toy_world =
     (toy_world\<lparr>rng := 3, trace := toy_setup_events\<rparr>,
      Inr (toy_vocabulary, toy_model, [2, 1, 0], Indices [[1, 0], [3, 2], [1, 2]], [1, 0, 1]))"
    by (simp add: toy_before_training toy_world_def)
  have g1: "ACTION toy_config = ''predict'' \<and> os_path_exists toy_world_trained (weights_file toy_config)"
    by (simp add: toy_cfg os_path_exists_def toy_world_trained_def)
  have g2: "\<not> os_path_exists toy_world (weights_file toy_config)"
    by (simp add: os_path_exists_def toy_world_def)
  have e1: "events_of_run toy_externals toy_config toy_world_trained =
       toy_setup_events @
         [Call_load_weights ''models/weights_file'', Call_predict [[1, 2]],
          Print [''good movie'', CHR 0x0A # ''is'', ''Positive'', ''sentence'']]"
    by (simp add: events_of_run_def toy_script_trained) (simp add: toy_world_trained_def)
  have e2: "events_of_run toy_externals toy_config toy_world =
       toy_setup_events @
         [Call_fit (Indices [[1, 0], [3, 2], [1, 2]]) [1, 0, 1] 32 100 0.1,
          Print [''dumping weights to file...''],
          Call_save_weights ''models/weights_file'' True,
          Call_predict [[1, 2]],
          Print [''good movie'', CHR 0x0A # ''is'', ''Negative'', ''sentence'']]"
    by (simp add: events_of_run_def toy_script_fresh) (simp add: toy_world_def)
  have f2: "files (fst (script toy_externals toy_config toy_world)) = [''models/weights_file'' \<mapsto> 43]"
    by (simp add: toy_script_fresh)
  from training_gate [OF b1] training_gate [OF b2] g1 g2 b1 b2 e1 e2 f2 show ?thesis
    by simp
qed

section \<open>Predict or not\<close>

text \<open>
  Claim C10. In a run that reaches line 150: when the action is \<open>predict\<close> and the
  weights file does not exist, the run fits the model, saves the fitted weights and then
  executes the prediction block on the configured sentence with those weights, so that a
  sentence that encodes and a model that answers give the call of the model and the
  printed label after the save; when the action is not \<open>predict\<close>, the run fits and
  saves to the configured path whether or not a file was there, ends after the save and
  neither loads weights nor calls the model.
\<close>

theorem predict_gate:
  assumes "before_training E cfg w = (w3, Inr (voc, m, idx, xs, ys))"
      and "fit E (rng w3) m xs ys (batch_size cfg) (num_epochs cfg) (val_split cfg) = (ws, r)"
  shows "(ACTION cfg = ''predict'' \<and> \<not> os_path_exists w (weights_file cfg) \<longrightarrow>
            script E cfg w =
              predicting E cfg voc m ws
                (w3\<lparr>rng := r, files := (files w)(weights_file cfg \<mapsto> ws),
                    trace := trace w3 @
                      [Call_fit xs ys (batch_size cfg) (num_epochs cfg) (val_split cfg),
                       Print [''dumping weights to file...''],
                       Call_save_weights (weights_file cfg) True]\<rparr>)
          \<and> (\<forall>v p. format_sentence (clean_str E) voc (sequence_length cfg) (sentence cfg) = Inr v
                    \<and> predict E m ws v = Inr p \<longrightarrow>
                script E cfg w =
                  (w3\<lparr>rng := r, files := (files w)(weights_file cfg \<mapsto> ws),
                      trace := trace w3 @
                        [Call_fit xs ys (batch_size cfg) (num_epochs cfg) (val_split cfg),
                         Print [''dumping weights to file...''],
                         Call_save_weights (weights_file cfg) True,
                         Call_predict v,
                         Print [sentence cfg, CHR 0x0A # ''is'', mood p, ''sentence'']]\<rparr>,
                   Inr ())))
       \<and> (ACTION cfg \<noteq> ''predict'' \<longrightarrow>
            script E cfg w =
              (w3\<lparr>rng := r, files := (files w)(weights_file cfg \<mapsto> ws),
                  trace := trace w3 @
                    [Call_fit xs ys (batch_size cfg) (num_epochs cfg) (val_split cfg),
                     Print [''dumping weights to file...''],
                     Call_save_weights (weights_file cfg) True]\<rparr>,
               Inr ())
          \<and> (\<forall>e \<in> set (events_of_run E cfg w). \<not> is_predict e \<and> \<not> is_load e))"
proof -
  let ?tev = "[Call_fit xs ys (batch_size cfg) (num_epochs cfg) (val_split cfg),
               Print [''dumping weights to file...''],
               Call_save_weights (weights_file cfg) True]"
  let ?w4 = "w3\<lparr>rng := r, files := (files w)(weights_file cfg \<mapsto> ws), trace := trace w3 @ ?tev\<rparr>"
  from before_training_world[OF assms(1)] obtain bev where
    fw: "files w3 = files w" and bev: "trace w3 = trace w @ bev" "\<forall>e \<in> set bev. quiet e"
    by blast
  have t: "training E cfg m xs ys w3 = (?w4, Inr ws)"
    if "\<not> (ACTION cfg = ''predict'' \<and> os_path_exists w (weights_file cfg))"
  proof -
    from that fw have "\<not> (ACTION cfg = ''predict'' \<and> os_path_exists w3 (weights_file cfg))"
      by (simp add: os_path_exists_def)
    from training_fit[OF this assms(2)] fw show ?thesis by simp
  qed
  have s: "script E cfg w = predicting E cfg voc m ws ?w4"
    if "\<not> (ACTION cfg = ''predict'' \<and> os_path_exists w (weights_file cfg))"
    using script_after[OF assms(1) t[OF that]] .
  have a: "script E cfg w =
             (?w4\<lparr>trace := trace ?w4 @
                 [Call_predict v, Print [sentence cfg, CHR 0x0A # ''is'', mood p, ''sentence'']]\<rparr>,
              Inr ())"
    if "ACTION cfg = ''predict''" "\<not> os_path_exists w (weights_file cfg)"
       "format_sentence (clean_str E) voc (sequence_length cfg) (sentence cfg) = Inr v"
       "predict E m ws v = Inr p" for v p
    using that s by (simp add: predicting_def emit_def)
  have b: "script E cfg w = (?w4, Inr ())" if "ACTION cfg \<noteq> ''predict''"
    using that s by (simp add: predicting_def)
  have c: "\<forall>e \<in> set (events_of_run E cfg w). \<not> is_predict e \<and> \<not> is_load e"
    if "ACTION cfg \<noteq> ''predict''"
    using b[OF that] bev by (auto simp: events_of_run_def quiet_def)
  from s a b c show ?thesis by simp
qed

theorem predict_gate_witness:
  "before_training toy_externals toy_config toy_world =
     (toy_world\<lparr>rng := 3, trace := toy_setup_events\<rparr>,
      Inr (toy_vocabulary, toy_model, [2, 1, 0], Indices [[1, 0], [3, 2], [1, 2]], [1, 0, 1]))
   \<and> fit toy_externals 3 toy_model (Indices [[1, 0], [3, 2], [1, 2]]) [1, 0, 1] 32 100 0.1 = (43, 4)
   \<and> ACTION toy_config = ''predict'' \<and> \<not> os_path_exists toy_world (weights_file toy_config)
   \<and> format_sentence (clean_str toy_externals) toy_vocabulary (sequence_length toy_config)
        (sentence toy_config) = Inr [[1, 2]]
   \<and> predict toy_externals toy_model 43 [[1, 2]] = Inr 0.25
   \<and> script toy_externals toy_config toy_world =
       (\<lparr>rng = 4, files = [''models/weights_file'' \<mapsto> 43],
         trace = toy_setup_events @
           [Call_fit (Indices [[1, 0], [3, 2], [1, 2]]) [1, 0, 1] 32 100 0.1,
            Print [''dumping weights to file...''],
            Call_save_weights ''models/weights_file'' True,
            Call_predict [[1, 2]],
            Print [''good movie'', CHR 0x0A # ''is'', ''Negative'', ''sentence'']]\<rparr>, Inr ())
   \<and> ACTION (toy_config\<lparr>ACTION := ''train''\<rparr>) \<noteq> ''predict''
   \<and> os_path_exists toy_world_trained (weights_file (toy_config\<lparr>ACTION := ''train''\<rparr>))
   \<and> script toy_externals (toy_config\<lparr>ACTION := ''train''\<rparr>) toy_world_trained =
       (\<lparr>rng = 4, files = [''models/weights_file'' \<mapsto> 43],
         trace = toy_setup_events @
           [Call_fit (Indices [[1, 0], [3, 2], [1, 2]]) [1, 0, 1] 32 100 0.1,
            Print [''dumping weights to file...''],
            Call_save_weights ''models/weights_file'' True]\<rparr>, Inr ())"
proof -
  let ?xs = "Indices [[1, 0], [3, 2], [1, 2]]"
  let ?tr = "toy_config\<lparr>ACTION := ''train''\<rparr>"
  have b1: "before_training toy_externals toy_config toy_world =
     (toy_world\<lparr>rng := 3, trace := toy_setup_events\<rparr>,
      Inr (toy_vocabulary, toy_model, [2, 1, 0], ?xs, [1, 0, 1]))"
    by (simp add: toy_before_training toy_world_def)
  have b2: "before_training toy_externals ?tr toy_world_trained =
     (toy_world_trained\<lparr>rng := 3, trace := toy_setup_events\<rparr>,
      Inr (toy_vocabulary, toy_model, [2, 1, 0], ?xs, [1, 0, 1]))"
    by (simp add: before_training_ACTION toy_before_training toy_world_trained_def)
  have f1: "fit toy_externals (rng (toy_world\<lparr>rng := 3, trace := toy_setup_events\<rparr>)) toy_model ?xs
              [1, 0, 1] (batch_size toy_config) (num_epochs toy_config) (val_split toy_config) = (43, 4)"
    by (simp add: toy_externals_def)
  have f2: "fit toy_externals (rng (toy_world_trained\<lparr>rng := 3, trace := toy_setup_events\<rparr>)) toy_model ?xs
              [1, 0, 1] (batch_size ?tr) (num_epochs ?tr) (val_split ?tr) = (43, 4)"
    by (simp add: toy_externals_def)
  have f: "fit toy_externals 3 toy_model ?xs [1, 0, 1] 32 100 0.1 = (43, 4)"
    by (simp add: toy_externals_def)
  have g1: "ACTION toy_config = ''predict'' \<and> \<not> os_path_exists toy_world (weights_file toy_config)"
    by (simp add: toy_cfg os_path_exists_def toy_world_def)
  have g2: "ACTION ?tr \<noteq> ''predict'' \<and> os_path_exists toy_world_trained (weights_file ?tr)"
    by (simp add: toy_cfg os_path_exists_def toy_world_trained_def)
  have e: "format_sentence (clean_str toy_externals) toy_vocabulary (sequence_length toy_config)
        (sentence toy_config) = Inr [[1, 2]]"
    by (simp add: toy_sentence_defs toy_externals_def toy_cfg)
  have p: "predict toy_externals toy_model 43 [[1, 2]] = Inr 0.25"
    by (simp add: toy_externals_def)
  from predict_gate [OF b1 f1] predict_gate [OF b2 f2] g1 g2 b1 f e p
       toy_script_fresh toy_script_train_only
  show ?thesis by simp
qed

section \<open>The embedding layer and the model variation\<close>

text \<open>
  Claim C8. In a run that reaches line 150 the sequential model holds an embedding layer
  if and only if the model variation is not \<open>CNN-static\<close>. For \<open>CNN-static\<close> every
  token index of the data is replaced by the row of the trained embedding matrix it names,
  and these vectors are what is shuffled and trained on. For \<open>CNN-non-static\<close> the data
  stays token indices and the first layer is an embedding layer built with the trained
  vectors as its weights. For \<open>CNN-rand\<close> the data stays token indices, no vectors are
  trained and the first layer is an embedding layer built with no weights.
\<close>

theorem embedding_layer_by_variation:
  assumes "before_training E cfg w = (w3, Inr (voc, m, idx, xs, ys))"
      and "load_data E (np_random_seed E 2) = ((x, y, voc0, vinv), r0)"
      and "train_word2vec E r0 x vinv (embedding_dim cfg) (min_word_count cfg) (w2v_context cfg)
             = (ew, r1)"
  shows "((\<exists>l \<in> set (layers m). is_embedding l) \<longleftrightarrow> model_variation cfg \<noteq> ''CNN-static'')
       \<and> (model_variation cfg = ''CNN-static'' \<longrightarrow>
            (\<exists>W xv. np_index ew 0 = Inr W \<and> np_take2 W x = Inr xv
                  \<and> length xv = length x
                  \<and> (\<forall>i < length x. length (xv ! i) = length (x ! i)
                        \<and> (\<forall>j < length (x ! i). np_index W (x ! i ! j) = Inr (xv ! i ! j)))
                  \<and> take_x (Vectors xv) idx = Inr xs))
       \<and> (model_variation cfg = ''CNN-non-static'' \<longrightarrow>
            layers m ! 0 =
              Embedding (Mapping.size voc0) (embedding_dim cfg) (sequence_length cfg) (Some ew)
            \<and> take_x (Indices x) idx = Inr xs)
       \<and> (model_variation cfg = ''CNN-rand'' \<longrightarrow>
            layers m ! 0 =
              Embedding (Mapping.size voc0) (embedding_dim cfg) (sequence_length cfg) None
            \<and> take_x (Indices x) idx = Inr xs
            \<and> Call_train_word2vec \<notin> set (drop (length (trace w)) (trace w3)))"
proof -
  from before_training_Inr[OF assms(1)] obtain w1 x' y' ew' w2 g where
    d: "data_preparation E cfg w = (w1, Inr (x', y', voc, ew'))" and
    s: "shuffle_data E x' y' voc w1 = (w2, Inr (idx, xs, ys))" and
    m: "m = main_model cfg (Mapping.size voc) ew' g" and
    w3: "w3 = emit Call_compile w2"
    by blast
  from shuffle_data_Inr[OF s] have
    tk: "take_x x' idx = Inr xs" and
    tr2: "trace w2 = trace w1 @ [Call_permutation,
                                 Print_format_d ''Vocabulary Size: {:d}'' (Mapping.size voc)]"
    by blast+
  have emb: "(\<exists>l \<in> set (layers m). is_embedding l) \<longleftrightarrow> model_variation cfg \<noteq> ''CNN-static''"
    by (simp add: m main_model_layers)
  have static: "\<exists>W xv. np_index ew 0 = Inr W \<and> np_take2 W x = Inr xv
                  \<and> length xv = length x
                  \<and> (\<forall>i < length x. length (xv ! i) = length (x ! i)
                        \<and> (\<forall>j < length (x ! i). np_index W (x ! i ! j) = Inr (xv ! i ! j)))
                  \<and> take_x (Vectors xv) idx = Inr xs"
    if v: "model_variation cfg = ''CNN-static''"
  proof -
    from d v assms(2,3) obtain W xv where
      W: "np_index ew 0 = Inr W" and xv: "np_take2 W x = Inr xv" and x': "x' = Vectors xv"
      by (auto simp: data_preparation_def Let_def emit_def split: sum.splits)
    from W xv np_take2_nth[OF xv] tk x' show ?thesis by blast
  qed
  have nonstatic: "layers m ! 0 =
              Embedding (Mapping.size voc0) (embedding_dim cfg) (sequence_length cfg) (Some ew)
            \<and> take_x (Indices x) idx = Inr xs"
    if v: "model_variation cfg = ''CNN-non-static''"
  proof -
    from d v assms(2,3) have "x' = Indices x" "ew' = Some ew" "voc = voc0"
      by (auto simp: data_preparation_def Let_def emit_def split: sum.splits)
    with tk v show ?thesis by (simp add: m main_model_layers)
  qed
  have rand: "layers m ! 0 =
              Embedding (Mapping.size voc0) (embedding_dim cfg) (sequence_length cfg) None
            \<and> take_x (Indices x) idx = Inr xs
            \<and> Call_train_word2vec \<notin> set (drop (length (trace w)) (trace w3))"
    if v: "model_variation cfg = ''CNN-rand''"
  proof -
    from d v assms(2) have "x' = Indices x" "ew' = None" "voc = voc0"
      and "trace w1 = trace w @ [Print [''Model variation is '' @ model_variation cfg],
                                 Print [''Loading data...''], Call_load_data]"
      by (auto simp: data_preparation_def Let_def emit_def split: sum.splits)
    with tk v tr2 w3 show ?thesis by (simp add: m main_model_layers emit_def)
  qed
  from emb static nonstatic rand show ?thesis by blast
qed

theorem embedding_layer_by_variation_witness:
  "load_data toy_externals (np_random_seed toy_externals 2) = (toy_data, 2)
   \<and> before_training toy_externals toy_static toy_world =
     (\<lparr>rng = 3, files = Map.empty,
       trace = [Print [''Model variation is CNN-static''], Print [''Loading data...''],
                Call_load_data, Call_train_word2vec, Call_permutation,
                Print_format_d ''Vocabulary Size: {:d}'' 4, Call_compile]\<rparr>,
      Inr (toy_vocabulary,
           main_model toy_static 4 (Some [[[0, 0], [1, 0], [0, 1], [1, 1]]]) toy_graph,
           [2, 1, 0],
           Vectors [[[1, 0], [0, 0]], [[1, 1], [0, 1]], [[1, 0], [0, 1]]],
           [1, 0, 1]))
   \<and> model_variation toy_static = ''CNN-static''
   \<and> \<not> (\<exists>l \<in> set (layers (main_model toy_static 4 (Some [[[0, 0], [1, 0], [0, 1], [1, 1]]])
                              toy_graph)). is_embedding l)
   \<and> np_take2 [[0, 0], [1, 0], [0, 1], [1, 1]] [[1, 2], [3, 2], [1, 0]]
       = Inr [[[1, 0], [0, 1]], [[1, 1], [0, 1]], [[1, 0], [0, 0 :: real]]]
   \<and> model_variation toy_config = ''CNN-non-static''
   \<and> layers toy_model ! 0 = Embedding 4 2 2 (Some [[[0, 0], [1, 0], [0, 1], [1, 1]]])
   \<and> model_variation toy_rand = ''CNN-rand''
   \<and> layers (main_model toy_rand 4 None toy_graph) ! 0 = Embedding 4 2 2 None"
proof -
  let ?ew = "[[[0, 0], [1, 0], [0, 1], [1, 1 :: real]]]"
  have l: "load_data toy_externals (np_random_seed toy_externals 2)
             = (([[1, 2], [3, 2], [1, 0]], [[0, 1], [1, 0], [0, 1]], toy_vocabulary,
                 [''<PAD/>'', ''good'', ''movie'', ''bad'']), 2)"
    by (simp add: toy_externals_def toy_data_def)
  have t: "train_word2vec toy_externals 2 [[1, 2], [3, 2], [1, 0]]
             [''<PAD/>'', ''good'', ''movie'', ''bad''] (embedding_dim c) (min_word_count c)
             (w2v_context c) = (?ew, 2)" for c
    by (simp add: toy_externals_def)
  have b: "before_training toy_externals toy_config toy_world =
     (toy_world\<lparr>rng := 3, trace := trace toy_world @ toy_setup_events\<rparr>,
      Inr (toy_vocabulary, toy_model, [2, 1, 0], Indices [[1, 0], [3, 2], [1, 2]], [1, 0, 1]))"
    by (rule toy_before_training)
  have v: "model_variation toy_static = ''CNN-static''" "model_variation toy_rand = ''CNN-rand''"
    by (simp_all add: toy_static_def toy_rand_def)
  have n: "np_take2 [[0, 0], [1, 0], [0, 1], [1, 1]] [[1, 2], [3, 2], [1, 0]]
       = Inr [[[1, 0], [0, 1]], [[1, 1], [0, 1]], [[1, 0], [0, 0 :: real]]]"
    by (simp add: np_index_def)
  from embedding_layer_by_variation [OF toy_before_training_static l t]
       embedding_layer_by_variation [OF b l t]
       embedding_layer_by_variation [OF toy_before_training_rand l t]
       v toy_cfg(1) toy_before_training_static l n
  show ?thesis
    by (simp add: toy_data_def toy_size toy_cfg toy_static_def toy_rand_def)
qed

section \<open>The shuffle\<close>

text \<open>
  Claim C7. The shuffle draws one permutation of the row numbers, in one call, and
  indexes both the sequences and the labels with it: row \<open>k\<close> of the shuffled
  sequences and label \<open>k\<close> of the shuffled labels are the sequence and the class of the
  same row of the data, so that, the library returning a permutation, the shuffled pairs
  are exactly the pairs of the data. Because the generator is seeded before anything else,
  two runs on the same data from whatever generator state, files and trace compute the
  same permutation, the same shuffled sequences and labels and leave the generator in the
  same state, hence hand the same arguments to the training and its validation split.
\<close>

theorem shuffle_is_one_seeded_permutation:
  assumes "data_preparation E cfg w = (w1, Inr (x, y, voc, ew))"
      and "shuffle_data E x y voc w1 = (w2, Inr (idx, xs, ys))"
  shows "np_random_permutation E (rng w1) (np_arange (length y)) = (idx, rng w2)
       \<and> trace w2 = trace w1 @ [Call_permutation,
                                 Print_format_d ''Vocabulary Size: {:d}'' (Mapping.size voc)]
       \<and> length (x_rows xs) = length idx \<and> length ys = length idx
       \<and> (\<forall>k < length idx.
             np_index (x_rows x) (idx ! k) = Inr (x_rows xs ! k)
           \<and> (\<exists>row. np_index y (idx ! k) = Inr row \<and> np_argmax row = Inr (ys ! k)))
       \<and> (mset idx = mset (np_arange (length y)) \<and> length (x_rows x) = length y \<longrightarrow>
             (\<exists>labels. argmax_axis1 y = Inr labels
                  \<and> mset (zip (x_rows xs) ys) = mset (zip (x_rows x) labels)))
       \<and> (\<forall>w'. snd (before_training E cfg w') = snd (before_training E cfg w)
              \<and> rng (fst (before_training E cfg w')) = rng (fst (before_training E cfg w)))"
proof -
  note S = shuffle_data_Inr[OF assms(2)]
  note P = shuffle_pairs[OF assms(2)]
  have M: "mset idx = mset (np_arange (length y)) \<and> length (x_rows x) = length y \<longrightarrow>
             (\<exists>labels. argmax_axis1 y = Inr labels
                  \<and> mset (zip (x_rows xs) ys) = mset (zip (x_rows x) labels))"
    using shuffle_permutes_pairs[OF assms(2)] by blast
  have D: "\<forall>w'. snd (before_training E cfg w') = snd (before_training E cfg w)
              \<and> rng (fst (before_training E cfg w')) = rng (fst (before_training E cfg w))"
    using before_training_det by blast
  from S P M D show ?thesis by blast
qed

theorem shuffle_is_one_seeded_permutation_witness:
  "data_preparation toy_externals toy_config toy_world =
     (toy_world\<lparr>rng := 2, trace := [Print [''Model variation is CNN-non-static''],
            Print [''Loading data...''], Call_load_data, Call_train_word2vec]\<rparr>,
      Inr (Indices [[1, 2], [3, 2], [1, 0]], [[0, 1], [1, 0], [0, 1]], toy_vocabulary,
           Some [[[0, 0], [1, 0], [0, 1], [1, 1]]]))
   \<and> shuffle_data toy_externals (Indices [[1, 2], [3, 2], [1, 0]]) [[0, 1], [1, 0], [0, 1]]
       toy_vocabulary
       (toy_world\<lparr>rng := 2, trace := [Print [''Model variation is CNN-non-static''],
            Print [''Loading data...''], Call_load_data, Call_train_word2vec]\<rparr>) =
     (toy_world\<lparr>rng := 3, trace := [Print [''Model variation is CNN-non-static''],
            Print [''Loading data...''], Call_load_data, Call_train_word2vec, Call_permutation,
            Print_format_d ''Vocabulary Size: {:d}'' 4]\<rparr>,
      Inr ([2, 1, 0], Indices [[1, 0], [3, 2], [1, 2]], [1, 0, 1]))
   \<and> mset [2, 1, 0] = mset (np_arange (length [[0, 1], [1, 0], [0, 1 :: int]]))
   \<and> length (x_rows (Indices [[1, 2], [3, 2], [1, 0]])) = length [[0, 1], [1, 0], [0, 1 :: int]]
   \<and> argmax_axis1 [[0, 1], [1, 0], [0, 1]] = Inr [1, 0, 1]
   \<and> mset (zip (x_rows (Indices [[1, 0], [3, 2], [1, 2]])) [1, 0, 1 :: int])
       = mset (zip (x_rows (Indices [[1, 2], [3, 2], [1, 0]])) [1, 0, 1])
   \<and> rng toy_world_trained \<noteq> rng toy_world
   \<and> snd (before_training toy_externals toy_config toy_world_trained)
       = snd (before_training toy_externals toy_config toy_world)
   \<and> rng (fst (before_training toy_externals toy_config toy_world_trained))
       = rng (fst (before_training toy_externals toy_config toy_world))"
proof -
  let ?w1 = "toy_world\<lparr>rng := 2, trace := [Print [''Model variation is CNN-non-static''],
            Print [''Loading data...''], Call_load_data, Call_train_word2vec]\<rparr>"
  have d: "data_preparation toy_externals toy_config toy_world =
     (?w1, Inr (Indices [[1, 2], [3, 2], [1, 0]], [[0, 1], [1, 0], [0, 1]], toy_vocabulary,
           Some [[[0, 0], [1, 0], [0, 1], [1, 1]]]))"
    by (simp add: toy_data_preparation toy_world_def)
  have s: "shuffle_data toy_externals (Indices [[1, 2], [3, 2], [1, 0]]) [[0, 1], [1, 0], [0, 1]]
       toy_vocabulary ?w1 =
     (toy_world\<lparr>rng := 3, trace := [Print [''Model variation is CNN-non-static''],
            Print [''Loading data...''], Call_load_data, Call_train_word2vec, Call_permutation,
            Print_format_d ''Vocabulary Size: {:d}'' 4]\<rparr>,
      Inr ([2, 1, 0], Indices [[1, 0], [3, 2], [1, 2]], [1, 0, 1]))"
    by (simp add: toy_shuffle_data)
  have p: "mset [2, 1, 0] = mset (np_arange (length [[0, 1], [1, 0], [0, 1 :: int]]))"
    by (simp add: np_arange_def upt_rec numeral_3_eq_3)
  have l: "length (x_rows (Indices [[1, 2], [3, 2], [1, 0]])) = length [[0, 1], [1, 0], [0, 1 :: int]]"
    by (simp add: x_rows_def)
  have a: "argmax_axis1 [[0, 1], [1, 0], [0, 1]] = Inr [1, 0, 1]"
    by (simp add: np_argmax_def)
  have r: "rng toy_world_trained \<noteq> rng toy_world"
    by (simp add: toy_world_def toy_world_trained_def)
  from shuffle_is_one_seeded_permutation [OF d s] d s p l a r show ?thesis
    by simp
qed

end
